theory Spec2Isabelle
  imports Complex_Main "HOL-Library.Word"
begin
section \<open>JavaScript values used by the plugin\<close>

text \<open>
  A JavaScript string is a sequence of UTF-16 code units; \<open>charCodeAt\<close> reads one of them
  as a number.  String literals of the source are written with \<open>js\<close>.
\<close>

type_synonym jsstring = "nat list"

definition js :: "string \<Rightarrow> jsstring" where
  "js s = map of_char s"

text \<open>
  \<open>Number.prototype.toString\<close> and template-literal interpolation of an integer:
  decimal digits, with a leading minus sign for a negative number.
\<close>

fun digits :: "nat \<Rightarrow> jsstring" where
  "digits n = (if n < 10 then [48 + n] else digits (n div 10) @ [48 + n mod 10])"

definition numToString :: "int \<Rightarrow> jsstring" where
  "numToString i = (if i < 0 then 45 # digits (nat (- i)) else digits (nat i))"

text \<open>
  The carousel index is a JavaScript number.  \<open>(i + 1) % 0\<close> is \<open>NaN\<close>, and \<open>NaN\<close> stays
  \<open>NaN\<close> under further arithmetic, so the index is a natural number or \<open>NaN\<close>.
\<close>

datatype jsindex = Idx nat | NaN

fun advanceIndex :: "jsindex \<Rightarrow> nat \<Rightarrow> jsindex" where
  "advanceIndex (Idx i) len = (if len = 0 then NaN else Idx ((i + 1) mod len))"
| "advanceIndex NaN len = NaN"

fun indexToString :: "jsindex \<Rightarrow> jsstring" where
  "indexToString (Idx i) = digits i"
| "indexToString NaN = js ''NaN''"

text \<open>\<open>xs[i]\<close>: \<open>undefined\<close> (here \<open>None\<close>) outside the array and at \<open>NaN\<close>.\<close>

fun elementAt :: "'a list \<Rightarrow> jsindex \<Rightarrow> 'a option" where
  "elementAt xs (Idx i) = (if i < length xs then Some (xs ! i) else None)"
| "elementAt xs NaN = None"

text \<open>\<open>Array.prototype.findIndex\<close>: the first position whose element satisfies the predicate.\<close>

fun findIndex :: "('a \<Rightarrow> bool) \<Rightarrow> 'a list \<Rightarrow> nat option" where
  "findIndex p [] = None"
| "findIndex p (x # xs) =
     (if p x then Some 0 else (case findIndex p xs of None \<Rightarrow> None | Some i \<Rightarrow> Some (Suc i)))"

text \<open>
  \<open>Array.prototype.sort(comparefn)\<close>.  ECMAScript 2019 requires the sort to be stable; with
  a consistent comparator the result is then unique, and it is the one insertion sort
  computes: an element is placed in front of the first element it does not compare
  greater than.
\<close>

fun insertBy :: "('a \<Rightarrow> 'a \<Rightarrow> int) \<Rightarrow> 'a \<Rightarrow> 'a list \<Rightarrow> 'a list" where
  "insertBy cmp x [] = [x]"
| "insertBy cmp x (y # ys) = (if cmp x y \<le> 0 then x # y # ys else y # insertBy cmp x ys)"

fun arraySort :: "('a \<Rightarrow> 'a \<Rightarrow> int) \<Rightarrow> 'a list \<Rightarrow> 'a list" where
  "arraySort cmp [] = []"
| "arraySort cmp (x # xs) = insertBy cmp x (arraySort cmp xs)"

text \<open>
  \<open>String.prototype.split(sep)\<close> for a separator of one code unit.  The empty string
  splits into one empty piece.
\<close>

fun split :: "nat \<Rightarrow> jsstring \<Rightarrow> jsstring list" where
  "split sep [] = [[]]"
| "split sep (c # cs) =
     (if c = sep then [] # split sep cs
      else (case split sep cs of [] \<Rightarrow> [[c]] | t # ts \<Rightarrow> (c # t) # ts))"

text \<open>
  \<open>ToInt32\<close>, the conversion every bitwise operator applies to its operands, and the two
  bitwise operators of the hash.  The numbers involved stay far below \<open>2^53\<close>, so the
  double arithmetic between the conversions is exact integer arithmetic.
\<close>

definition toInt32 :: "int \<Rightarrow> int" where
  "toInt32 x = (x + 2 ^ 31) mod 2 ^ 32 - 2 ^ 31"

definition shiftLeft :: "int \<Rightarrow> nat \<Rightarrow> int" where
  "shiftLeft a k = toInt32 (toInt32 a * 2 ^ (k mod 32))"

definition bitAnd :: "int \<Rightarrow> int \<Rightarrow> int" where
  "bitAnd a b = and (toInt32 a) (toInt32 b)"


section \<open>Roster entries\<close>

text \<open>
  One object of the rotating webhook's JSON array.  A field the object lacks reads as
  \<open>undefined\<close>, modelled by \<open>None\<close>.
\<close>

record user_entry =
  userId :: "jsstring option"
  displayName :: "jsstring option"
  count :: "int option"
  fromType :: "jsstring option"

text \<open>\<open>u.count || 0\<close>\<close>

definition countOrZero :: "user_entry \<Rightarrow> int" where
  "countOrZero u = (case count u of None \<Rightarrow> 0 | Some c \<Rightarrow> c)"

text \<open>The comparator of \<open>fetchUsersData\<close>: \<open>(a, b) => (b.count || 0) - (a.count || 0)\<close>\<close>

definition compareCount :: "user_entry \<Rightarrow> user_entry \<Rightarrow> int" where
  "compareCount a b = countOrZero b - countOrZero a"

text \<open>
  A string-valued field under a truthiness test: \<open>undefined\<close> and the empty string are
  falsy, and a truthy field is a non-empty string.
\<close>

fun truthyValue :: "jsstring option \<Rightarrow> jsstring option" where
  "truthyValue None = None"
| "truthyValue (Some s) = (if s = [] then None else Some s)"

text \<open>\<open>`${x}`\<close> of a string-valued field\<close>

fun interpolate :: "jsstring option \<Rightarrow> jsstring" where
  "interpolate None = js ''undefined''"
| "interpolate (Some s) = s"

text \<open>\<open>user.displayName || user.userId\<close>, evaluated where \<open>userId\<close> is known to be \<open>uid\<close>\<close>

definition nameOrId :: "user_entry \<Rightarrow> jsstring \<Rightarrow> jsstring" where
  "nameOrId u uid = (case displayName u of None \<Rightarrow> uid | Some n \<Rightarrow> if n \<noteq> [] then n else uid)"

text \<open>\<open>user.displayName === 'Workflows' ? 'WF' : null\<close>\<close>

definition workflowsOverride :: "user_entry \<Rightarrow> jsstring option" where
  "workflowsOverride u = (if displayName u = Some (js ''Workflows'') then Some (js ''WF'') else None)"

text \<open>\<open>`${user.userId}_${count}`\<close>\<close>

definition cacheKey :: "jsstring \<Rightarrow> int \<Rightarrow> jsstring" where
  "cacheKey uid c = uid @ js ''_'' @ numToString c"


section \<open>Images and the canvas\<close>

text \<open>
  An image travels as a data URL.  Two kinds occur: the data URL \<open>blobToDataUrl\<close> makes of a
  webhook response body (its media type, its payload, and whether the payload decodes as
  an image), and the PNG data URL \<open>canvas.toDataURL('image/png')\<close> makes of a 144 x 144
  canvas, which is determined by the drawing operations performed on the canvas.
  Alpha values are JavaScript doubles in the source; the model keeps the exact quotients.
\<close>

datatype image =
    DataUrl jsstring jsstring bool
  | Png "drawop list"
and drawop =
    FillRect jsstring rat
  | DrawImage image rat
  | StrokeText jsstring jsstring nat rat
  | FillText jsstring jsstring rat

fun mediaType :: "image \<Rightarrow> jsstring" where
  "mediaType (DataUrl m p d) = m"
| "mediaType (Png ops) = js ''image/png''"

text \<open>
  \<open>loadImage\<close> and the \<open>onload\<close>/\<open>onerror\<close> pair of \<open>overlayCountOnImage\<close>: a canvas PNG
  always decodes, a response body may not.
\<close>

fun loadImage :: "image \<Rightarrow> image option" where
  "loadImage (DataUrl m p d) = (if d then Some (DataUrl m p d) else None)"
| "loadImage (Png ops) = Some (Png ops)"

text \<open>
  The 2D context: the style state the source sets, and the operations drawn so far.
  Every \<open>fillRect\<close> of the source covers the whole canvas with an opaque colour; at
  \<open>globalAlpha = 1\<close> it therefore replaces whatever was drawn before.  Font, alignment
  and text position are fixed at each call site and not recorded.
\<close>

record canvas =
  fillStyle :: jsstring
  strokeStyle :: jsstring
  lineWidth :: nat
  globalAlpha :: rat
  drawn :: "drawop list"

definition createCanvas :: canvas where
  "createCanvas = \<lparr>fillStyle = js ''#000000'', strokeStyle = js ''#000000'', lineWidth = 1,
     globalAlpha = 1, drawn = []\<rparr>"

definition fillRect :: "canvas \<Rightarrow> canvas" where
  "fillRect c =
     (if globalAlpha c = 1 then c\<lparr>drawn := [FillRect (fillStyle c) 1]\<rparr>
      else c\<lparr>drawn := drawn c @ [FillRect (fillStyle c) (globalAlpha c)]\<rparr>)"

definition drawImage :: "image \<Rightarrow> canvas \<Rightarrow> canvas" where
  "drawImage img c = c\<lparr>drawn := drawn c @ [DrawImage img (globalAlpha c)]\<rparr>"

definition strokeText :: "jsstring \<Rightarrow> canvas \<Rightarrow> canvas" where
  "strokeText t c = c\<lparr>drawn := drawn c @ [StrokeText t (strokeStyle c) (lineWidth c) (globalAlpha c)]\<rparr>"

definition fillText :: "jsstring \<Rightarrow> canvas \<Rightarrow> canvas" where
  "fillText t c = c\<lparr>drawn := drawn c @ [FillText t (fillStyle c) (globalAlpha c)]\<rparr>"

definition toDataURL :: "canvas \<Rightarrow> image" where
  "toDataURL c = Png (drawn c)"


subsection \<open>Initials avatars\<close>

definition colors :: "jsstring list" where
  "colors = [js ''#B0C4DE'', js ''#98FB98'', js ''#FFB6C1'', js ''#FFDAB9'',
             js ''#DDA0DD'', js ''#AFEEEE'', js ''#D3D3D3'', js ''#FFFACD'']"

text \<open>
  The hash of \<open>generateInitialsImage\<close>, a \<open>reduce\<close> over the code units of the display
  name from 0 with the step \<open>a = ((a << 5) - a) + b.charCodeAt(0); return a & a\<close>.
\<close>

definition hashStep :: "int \<Rightarrow> nat \<Rightarrow> int" where
  "hashStep a b = (let a' = (shiftLeft a 5 - a) + int b in bitAnd a' a')"

definition nameHash :: "jsstring \<Rightarrow> int" where
  "nameHash dname = foldl hashStep 0 dname"

text \<open>
  The initials text of \<open>generateInitialsImage(displayName, defaultInitials)\<close>, with
  \<open>dname\<close> for the parameter \<open>displayName\<close>.  \<open>upper\<close> is the runtime's
  \<open>String.prototype.toUpperCase\<close>, a parameter of the model.  \<open>defaultInitials || ...\<close>
  takes the computed initials when the override is \<open>null\<close> or empty.
\<close>

definition initialsOf :: "(jsstring \<Rightarrow> jsstring) \<Rightarrow> jsstring \<Rightarrow> jsstring option \<Rightarrow> jsstring" where
  "initialsOf upper dname defaultInitials =
     (let names = filter (\<lambda>name. length name > 0) (split 32 dname)
      in case truthyValue defaultInitials of
           Some initials \<Rightarrow> initials
         | None \<Rightarrow> concat (take 2 (map (\<lambda>name. upper (take 1 name)) names)))"

definition generateInitialsImage ::
  "(jsstring \<Rightarrow> jsstring) \<Rightarrow> jsstring \<Rightarrow> jsstring option \<Rightarrow> image" where
  "generateInitialsImage upper dname defaultInitials =
     (let initials = initialsOf upper dname defaultInitials;
          hash = nameHash dname;
          backgroundColor = colors ! nat (\<bar>hash\<bar> mod int (length colors));
          c0 = createCanvas;
          c1 = fillRect (c0\<lparr>fillStyle := backgroundColor\<rparr>);
          c2 = strokeText initials (c1\<lparr>strokeStyle := js ''#000000'', lineWidth := 2\<rparr>);
          c3 = fillText initials (c2\<lparr>fillStyle := js ''#ffffff''\<rparr>)
      in toDataURL c3)"


subsection \<open>Count badge\<close>

text \<open>
  \<open>overlayCountOnImage\<close>: the promise rejects (\<open>None\<close>) when the base image does not load.
  Otherwise the base image is drawn on a fresh canvas, the badge is drawn when
  \<open>count > 0\<close>, and the canvas is encoded.  The dominant and complementary colours the
  source computes in the badge branch end in the unused local \<open>strokeColor\<close>.
\<close>

definition overlayCountOnImage :: "image \<Rightarrow> int \<Rightarrow> image option" where
  "overlayCountOnImage imageDataUrl cnt =
     (case loadImage imageDataUrl of
        None \<Rightarrow> None
      | Some img \<Rightarrow>
          (let c1 = drawImage img createCanvas;
               c2 = (if cnt > 0 then
                       (let d1 = c1\<lparr>fillStyle := js ''#ffffff'', globalAlpha := 1/2,
                                   strokeStyle := js ''#000000'', lineWidth := 5\<rparr>;
                            d2 = strokeText (numToString cnt) d1;
                            d3 = fillText (numToString cnt) d2
                        in d3\<lparr>globalAlpha := 1\<rparr>)
                     else c1)
           in Some (toDataURL c2)))"


subsection \<open>Crossfade frames\<close>

text \<open>The body of the \<open>for (let frame = 0; frame <= 24; frame++)\<close> loop: one frame.\<close>

definition drawFrame :: "image \<Rightarrow> image \<Rightarrow> nat \<Rightarrow> canvas \<Rightarrow> canvas" where
  "drawFrame currentImg nextImg frame c =
     (let c1 = fillRect (c\<lparr>fillStyle := js ''#000000''\<rparr>);
          currentAlpha = 1 - (of_nat frame / 24);
          nextAlpha = of_nat frame / 24;
          c2 = drawImage currentImg (c1\<lparr>globalAlpha := currentAlpha\<rparr>);
          c3 = drawImage nextImg (c2\<lparr>globalAlpha := nextAlpha\<rparr>)
      in c3\<lparr>globalAlpha := 1\<rparr>)"

function frameLoop :: "image \<Rightarrow> image \<Rightarrow> nat \<Rightarrow> canvas \<Rightarrow> image list \<Rightarrow> image list" where
  "frameLoop currentImg nextImg frame c frames =
     (if frame \<le> 24 then
        (let c' = drawFrame currentImg nextImg frame c
         in frameLoop currentImg nextImg (frame + 1) c' (frames @ [toDataURL c']))
      else frames)"
  by pat_completeness auto
termination
  by (relation "measure (\<lambda>(currentImg, nextImg, frame, c, frames). 25 - frame)") auto



section \<open>Static state images\<close>

definition generateNoUsersImage :: image where
  "generateNoUsersImage =
     (let c1 = fillRect (createCanvas\<lparr>fillStyle := js ''#666666''\<rparr>);
          c2 = fillText (js ''No Users'') (c1\<lparr>fillStyle := js ''#ffffff''\<rparr>)
      in toDataURL c2)"

definition generateLoadingImage :: image where
  "generateLoadingImage =
     (let c1 = fillRect (createCanvas\<lparr>fillStyle := js ''#0078d4''\<rparr>);
          c2 = fillText (js ''Loading...'') (c1\<lparr>fillStyle := js ''#ffffff''\<rparr>)
      in toDataURL c2)"

definition generateConfigRequiredImage :: image where
  "generateConfigRequiredImage =
     (let c1 = fillRect (createCanvas\<lparr>fillStyle := js ''#ff8c00''\<rparr>);
          c2 = fillText (js ''Config'') (c1\<lparr>fillStyle := js ''#ffffff''\<rparr>);
          c3 = fillText (js ''Required'') c2
      in toDataURL c3)"

definition generateErrorImage :: image where
  "generateErrorImage =
     (let c1 = fillRect (createCanvas\<lparr>fillStyle := js ''#d13438''\<rparr>);
          c2 = fillText (js ''Error'') (c1\<lparr>fillStyle := js ''#ffffff''\<rparr>)
      in toDataURL c2)"

definition generateInvalidDataImage :: image where
  "generateInvalidDataImage =
     (let c1 = fillRect (createCanvas\<lparr>fillStyle := js ''#c239b3''\<rparr>);
          c2 = fillText (js ''Invalid'') (c1\<lparr>fillStyle := js ''#ffffff''\<rparr>);
          c3 = fillText (js ''Data'') c2
      in toDataURL c3)"


section \<open>The network and the runtime\<close>

text \<open>
  What one \<open>fetch\<close> of the avatar webhook yields: the promise rejects, the status is not
  OK, or the status is OK and \<open>response.blob()\<close> followed by \<open>blobToDataUrl\<close> gives a data
  URL (\<open>None\<close> when reading the body rejects).  A request is the webhook URL, the query
  parameter and its value before \<open>encodeURIComponent\<close>.
\<close>

datatype avatar_response = FetchThrows | HttpNotOk nat | HttpOk "image option"

text \<open>
  What the rotating webhook yields: \<open>fetch\<close> or \<open>response.json()\<close> rejects, the status is
  not OK, the JSON is not an array, or it is an array of entries.
\<close>

datatype roster_response =
  RosterThrows | RosterNotOk nat | RosterNotArray | RosterArray "user_entry list"

type_synonym request = "jsstring \<times> jsstring \<times> jsstring"

record env =
  toUpperCase :: "jsstring \<Rightarrow> jsstring"
  fetchAvatar :: "request \<Rightarrow> avatar_response"
  fetchRoster :: "jsstring \<Rightarrow> roster_response"

text \<open>An awaited promise settles: it resolves or it rejects, in either case leaving a state.\<close>

datatype 'a outcome = Resolved 'a | Rejected 'a


section \<open>The rotating carousel: class TeamsRotating\<close>

record settings =
  rotatingWebhookUrl :: "jsstring option"
  avatarWebhookUrl :: "jsstring option"
  useDisplayNameAsTitle :: bool
  disableAnimation :: bool

text \<open>
  Network and rendering work done by avatar resolution, recorded in order: a fetch of the
  avatar webhook, a call of \<open>generateInitialsImage\<close>, a call of \<open>overlayCountOnImage\<close>.
\<close>

datatype work = NetFetch request | InitialsRender jsstring | OverlayRender

text \<open>
  The fields of the instance.  Calls of \<open>streamDeck.log\<close> are left out of the model
  throughout.  \<open>transitionInterval\<close> and \<open>safetyTimeout\<close> say whether the
  frame interval and the one-shot safety timer of \<open>playTransition\<close> are pending.
  \<open>shownImages\<close> and \<open>shownTitles\<close> are the images and titles sent to the button, oldest
  first; \<open>workDone\<close> is the work record above.
\<close>

record session =
  settings :: settings
  users :: "user_entry list"
  currentUserIndex :: jsindex
  currentAvatarImage :: "image option"
  nextAvatarImage :: "image option"
  isFetchingNext :: bool
  isFetchingCurrent :: bool
  isTransitioning :: bool
  avatarCache :: "jsstring \<rightharpoonup> image"
  transitionFrames :: "image list"
  currentFrameIndex :: nat
  lastDisplayedState :: "jsstring option"
  transitionInterval :: bool
  safetyTimeout :: bool
  shownImages :: "image list"
  shownTitles :: "jsstring list"
  workDone :: "work list"

text \<open>The constructor.\<close>

definition newSession :: "settings \<Rightarrow> session" where
  "newSession cfg = \<lparr>settings = cfg, users = [], currentUserIndex = Idx 0,
     currentAvatarImage = None, nextAvatarImage = None, isFetchingNext = False,
     isFetchingCurrent = False, isTransitioning = False, avatarCache = Map.empty,
     transitionFrames = [], currentFrameIndex = 0, lastDisplayedState = None,
     transitionInterval = False, safetyTimeout = False, shownImages = [], shownTitles = [],
     workDone = []\<rparr>"

text \<open>
  Modelled from the spec: \<open>setImage\<close> and \<open>setTitle\<close> of the base class \<open>Action\<close>
  (\<open>actions/action.js\<close>, not among the sources) hand an image and a short title to the
  display surface of the button.
\<close>

definition setImage :: "image \<Rightarrow> session \<Rightarrow> session" where
  "setImage img s = s\<lparr>shownImages := shownImages s @ [img]\<rparr>"

definition setTitle :: "jsstring \<Rightarrow> session \<Rightarrow> session" where
  "setTitle t s = s\<lparr>shownTitles := shownTitles s @ [t]\<rparr>"

definition setImageIfChanged :: "image \<Rightarrow> jsstring \<Rightarrow> session \<Rightarrow> bool \<times> session" where
  "setImageIfChanged img stateKey s =
     (if lastDisplayedState s = Some stateKey then (False, s)
      else (True, setImage img (s\<lparr>lastDisplayedState := Some stateKey\<rparr>)))"


subsection \<open>Avatar resolution\<close>

text \<open>
  \<open>prefetchNextAvatar\<close> and \<open>prefetchCurrentAvatar\<close> are the same text up to the user
  they resolve, the in-flight flag they guard with and the image field they fill.  The
  model has one function with that choice as a parameter.
\<close>

datatype slot = NextSlot | CurrentSlot

fun slotIndex :: "slot \<Rightarrow> session \<Rightarrow> jsindex" where
  "slotIndex NextSlot s = advanceIndex (currentUserIndex s) (length (users s))"
| "slotIndex CurrentSlot s = currentUserIndex s"

fun isFetching :: "slot \<Rightarrow> session \<Rightarrow> bool" where
  "isFetching NextSlot s = isFetchingNext s"
| "isFetching CurrentSlot s = isFetchingCurrent s"

fun setFetching :: "slot \<Rightarrow> bool \<Rightarrow> session \<Rightarrow> session" where
  "setFetching NextSlot b s = s\<lparr>isFetchingNext := b\<rparr>"
| "setFetching CurrentSlot b s = s\<lparr>isFetchingCurrent := b\<rparr>"

fun slotImage :: "slot \<Rightarrow> session \<Rightarrow> image option" where
  "slotImage NextSlot s = nextAvatarImage s"
| "slotImage CurrentSlot s = currentAvatarImage s"

fun setSlotImage :: "slot \<Rightarrow> image \<Rightarrow> session \<Rightarrow> session" where
  "setSlotImage NextSlot img s = s\<lparr>nextAvatarImage := Some img\<rparr>"
| "setSlotImage CurrentSlot img s = s\<lparr>currentAvatarImage := Some img\<rparr>"

text \<open>
  An \<open>async\<close> function runs synchronously up to its first \<open>await\<close>.  For avatar resolution
  that prefix is the guards, the cache lookup and the choice of branch; a cache hit
  finishes inside it.  Otherwise the call is left pending, with the locals it captured:
  the user, the user id and the branch taken.
\<close>

datatype branch = BotBranch | NoUrlBranch | FetchBranch jsstring

datatype pending = Pending slot branch user_entry jsstring

definition prefetchStart :: "slot \<Rightarrow> session \<Rightarrow> session \<times> pending option" where
  "prefetchStart slot s =
     (if isFetching slot s then (s, None)
      else if length (users s) = 0 then (s, None)
      else (case elementAt (users s) (slotIndex slot s) of
        None \<Rightarrow> (s, None)
      | Some u \<Rightarrow>
       (case userId u of
          None \<Rightarrow> (s, None)
        | Some uid \<Rightarrow>
           if uid = [] then (s, None)
           else
            (let s1 = setFetching slot True s;
                 cnt = countOrZero u;
                 key = cacheKey uid cnt
             in case avatarCache s1 key of
                  Some img \<Rightarrow> (setFetching slot False (setSlotImage slot img s1), None)
                | None \<Rightarrow>
                    if fromType u = Some (js ''bot'') then (s1, Some (Pending slot BotBranch u uid))
                    else (case avatarWebhookUrl (settings s1) of
                            None \<Rightarrow> (s1, Some (Pending slot NoUrlBranch u uid))
                          | Some avatarUrl \<Rightarrow>
                              if avatarUrl = [] then (s1, Some (Pending slot NoUrlBranch u uid))
                              else (s1, Some (Pending slot (FetchBranch avatarUrl) u uid)))))))"

text \<open>\<open>this.xAvatarImage = img; this.avatarCache.set(cacheKey, this.xAvatarImage)\<close>\<close>

definition storeAvatar :: "slot \<Rightarrow> jsstring \<Rightarrow> image \<Rightarrow> session \<Rightarrow> session" where
  "storeAvatar slot key img s =
     (let s1 = setSlotImage slot img s in s1\<lparr>avatarCache := (avatarCache s1)(key \<mapsto> img)\<rparr>)"

text \<open>
  The statement sequence \<open>generateInitialsImage\<close>, \<open>await overlayCountOnImage\<close>, store, which
  the source has five times in each function.  It rejects when the overlay promise does.
  The pure call of \<open>generateInitialsImage\<close> sits with the continuation that uses its
  result.
\<close>

definition initialsPath ::
  "env \<Rightarrow> slot \<Rightarrow> user_entry \<Rightarrow> jsstring \<Rightarrow> jsstring option \<Rightarrow> session \<Rightarrow> session outcome" where
  "initialsPath e slot u uid defaultInitials s =
     (let dname = nameOrId u uid;
          cnt = countOrZero u;
          baseImage = generateInitialsImage (toUpperCase e) dname defaultInitials;
          s1 = s\<lparr>workDone := workDone s @ [InitialsRender dname, OverlayRender]\<rparr>
      in case overlayCountOnImage baseImage cnt of
           None \<Rightarrow> Rejected s1
         | Some img \<Rightarrow> Resolved (storeAvatar slot (cacheKey uid cnt) img s1))"

text \<open>
  \<open>try { ... } catch (error) { initials fallback } finally { flag = false }\<close> applied to the
  outcome of the \<open>try\<close> body.
\<close>

definition catchFinally ::
  "env \<Rightarrow> slot \<Rightarrow> user_entry \<Rightarrow> jsstring \<Rightarrow> session outcome \<Rightarrow> session outcome" where
  "catchFinally e slot u uid tried =
     (case tried of
        Resolved s1 \<Rightarrow> Resolved (setFetching slot False s1)
      | Rejected s1 \<Rightarrow>
          (case initialsPath e slot u uid None s1 of
             Resolved s2 \<Rightarrow> Resolved (setFetching slot False s2)
           | Rejected s2 \<Rightarrow> Rejected (setFetching slot False s2)))"

text \<open>The rest of a pending resolution, run when its awaited promises have settled.\<close>

fun prefetchFinish :: "env \<Rightarrow> pending \<Rightarrow> session \<Rightarrow> session outcome" where
  "prefetchFinish e (Pending slot BotBranch u uid) s =
     (case initialsPath e slot u uid (workflowsOverride u) s of
        Resolved s1 \<Rightarrow> Resolved (setFetching slot False s1)
      | Rejected s1 \<Rightarrow> Rejected s1)"
| "prefetchFinish e (Pending slot NoUrlBranch u uid) s =
     catchFinally e slot u uid (initialsPath e slot u uid None s)"
| "prefetchFinish e (Pending slot (FetchBranch avatarUrl) u uid) s =
     (let req = (avatarUrl, js ''userId'', uid);
          s0 = s\<lparr>workDone := workDone s @ [NetFetch req]\<rparr>;
          cnt = countOrZero u
      in catchFinally e slot u uid
          (case fetchAvatar e req of
             FetchThrows \<Rightarrow> Rejected s0
           | HttpNotOk status \<Rightarrow> initialsPath e slot u uid None s0
           | HttpOk None \<Rightarrow> Rejected s0
           | HttpOk (Some baseImage) \<Rightarrow>
               (let s1 = s0\<lparr>workDone := workDone s0 @ [OverlayRender]\<rparr>
                in case overlayCountOnImage baseImage cnt of
                     None \<Rightarrow> Rejected s1
                   | Some img \<Rightarrow> Resolved (storeAvatar slot (cacheKey uid cnt) img s1))))"

text \<open>A resolution run from call to settlement, as \<open>await this.prefetchCurrentAvatar()\<close> sees it.\<close>

definition prefetchAvatar :: "env \<Rightarrow> slot \<Rightarrow> session \<Rightarrow> session outcome" where
  "prefetchAvatar e slot s =
     (case prefetchStart slot s of
        (s1, None) \<Rightarrow> Resolved s1
      | (s1, Some p) \<Rightarrow> prefetchFinish e p s1)"

definition prefetchNextAvatar :: "env \<Rightarrow> session \<Rightarrow> session outcome" where
  "prefetchNextAvatar e s = prefetchAvatar e NextSlot s"

definition prefetchCurrentAvatar :: "env \<Rightarrow> session \<Rightarrow> session outcome" where
  "prefetchCurrentAvatar e s = prefetchAvatar e CurrentSlot s"

text \<open>
  A call \<open>this.prefetchNextAvatar()\<close> that is not awaited: the caller goes on after the
  synchronous prefix, and the pending rest is handed back to be finished later.
\<close>

definition spawnPrefetchNext :: "session \<Rightarrow> session \<times> pending list" where
  "spawnPrefetchNext s =
     (case prefetchStart NextSlot s of
        (s1, None) \<Rightarrow> (s1, [])
      | (s1, Some p) \<Rightarrow> (s1, [p]))"


subsection \<open>Display\<close>

definition stateKeyOf :: "session \<Rightarrow> jsstring" where
  "stateKeyOf s =
     (let currentUser = elementAt (users s) (currentUserIndex s);
          cnt = (case currentUser of None \<Rightarrow> 0 | Some u \<Rightarrow> countOrZero u);
          uid = (case currentUser of None \<Rightarrow> None | Some u \<Rightarrow> userId u)
      in js ''avatar:'' @ interpolate uid @ js ''_'' @ numToString cnt @ js ''_''
           @ indexToString (currentUserIndex s))"

definition titleOf :: "session \<Rightarrow> jsstring" where
  "titleOf s =
     (if useDisplayNameAsTitle (settings s) then
        (case elementAt (users s) (currentUserIndex s) of
           None \<Rightarrow> []
         | Some u \<Rightarrow> (case displayName u of None \<Rightarrow> [] | Some n \<Rightarrow> n))
      else [])"

definition updateDisplay :: "session \<Rightarrow> session \<times> pending list" where
  "updateDisplay s =
     (if length (users s) = 0 then
        (let s1 = snd (setImageIfChanged generateNoUsersImage (js ''noUsers'') s)
         in (if useDisplayNameAsTitle (settings s1) then setTitle [] s1 else s1, []))
      else
        (let stateKey = stateKeyOf s;
             (s2, spawned) =
               (case currentAvatarImage s of
                  Some img \<Rightarrow> (snd (setImageIfChanged img stateKey s), [])
                | None \<Rightarrow>
                   (case nextAvatarImage s of
                      Some img \<Rightarrow>
                        (let s1 = snd (setImageIfChanged img stateKey s)
                         in spawnPrefetchNext
                              (s1\<lparr>currentAvatarImage := nextAvatarImage s1, nextAvatarImage := None\<rparr>))
                    | None \<Rightarrow> (s, [])))
         in (setTitle (titleOf s) s2, spawned)))"

definition showNextUser :: "session \<Rightarrow> session \<times> pending list" where
  "showNextUser s =
     (if length (users s) = 0 then
        (snd (setImageIfChanged generateNoUsersImage (js ''noUsers'') s), [])
      else
        (let s1 = s\<lparr>currentUserIndex := advanceIndex (currentUserIndex s) (length (users s))\<rparr>;
             s2 = s1\<lparr>currentAvatarImage := nextAvatarImage s1, nextAvatarImage := None\<rparr>;
             (s3, spawned) = spawnPrefetchNext s2;
             (s4, spawned') = updateDisplay s3
         in (s4, spawned @ spawned')))"


subsection \<open>Crossfade transition\<close>

text \<open>
  \<open>generateTransitionFrames\<close>: empties the frame list, loads both images (a missing or
  undecodable image rejects, and the source rethrows), then runs the frame loop.
\<close>

definition generateTransitionFrames :: "session \<Rightarrow> session outcome" where
  "generateTransitionFrames s =
     (let s0 = s\<lparr>transitionFrames := []\<rparr>
      in case Option.bind (currentAvatarImage s0) loadImage of
           None \<Rightarrow> Rejected s0
         | Some currentImg \<Rightarrow>
             (case Option.bind (nextAvatarImage s0) loadImage of
                None \<Rightarrow> Rejected s0
              | Some nextImg \<Rightarrow>
                  Resolved (s0\<lparr>transitionFrames := frameLoop currentImg nextImg 0 createCanvas []\<rparr>)))"

definition playTransition :: "session \<Rightarrow> session" where
  "playTransition s =
     s\<lparr>currentFrameIndex := 0, lastDisplayedState := Some (js ''transitioning''),
       safetyTimeout := True, transitionInterval := True\<rparr>"

definition completeTransition :: "session \<Rightarrow> session \<times> pending list" where
  "completeTransition s =
     (let s1 = s\<lparr>safetyTimeout := False, transitionInterval := False, isTransitioning := False\<rparr>;
          s2 = s1\<lparr>currentUserIndex := advanceIndex (currentUserIndex s1) (length (users s1))\<rparr>;
          s3 = s2\<lparr>currentAvatarImage := nextAvatarImage s2, nextAvatarImage := None\<rparr>;
          (s4, spawned) = updateDisplay s3;
          (s5, spawned') = (if length (users s4) > 0 then spawnPrefetchNext s4 else (s4, []))
      in (s5\<lparr>transitionFrames := []\<rparr>, spawned @ spawned'))"


text \<open>The callback of the frame interval set up by \<open>playTransition\<close>.\<close>

definition transitionTick :: "session \<Rightarrow> session \<times> pending list" where
  "transitionTick s =
     (if currentFrameIndex s < length (transitionFrames s) then
        (let s1 = setImage (transitionFrames s ! currentFrameIndex s) s
         in (s1\<lparr>currentFrameIndex := currentFrameIndex s1 + 1\<rparr>, []))
      else completeTransition s)"


definition showNextUserWithTransition :: "session \<Rightarrow> session \<times> pending list" where
  "showNextUserWithTransition s =
     (if length (users s) = 0 \<or> isTransitioning s then (s, [])
      else if currentAvatarImage s = None \<or> nextAvatarImage s = None then showNextUser s
      else
        (case generateTransitionFrames (s\<lparr>isTransitioning := True\<rparr>) of
           Resolved s1 \<Rightarrow> (playTransition s1, [])
         | Rejected s1 \<Rightarrow> showNextUser (s1\<lparr>isTransitioning := False\<rparr>)))"

text \<open>The callback of the carousel interval set up by \<open>startCarousel\<close>, and the key press.\<close>

definition carouselTick :: "session \<Rightarrow> session \<times> pending list" where
  "carouselTick s =
     (if disableAnimation (settings s) then showNextUser s
      else if \<not> isTransitioning s then showNextUserWithTransition s
      else (s, []))"

definition onKeyUp :: "session \<Rightarrow> session \<times> pending list" where
  "onKeyUp s = showNextUser s"


subsection \<open>Polling the roster\<close>

text \<open>
  \<open>fetchUsersData\<close>, from the settled fetch on.  \<open>await this.prefetchCurrentAvatar()\<close> is
  run to its settlement; a rejection lands in the \<open>catch\<close> of \<open>fetchUsersData\<close>.
\<close>

definition showError :: "session \<Rightarrow> session \<times> pending list" where
  "showError s = (snd (setImageIfChanged generateErrorImage (js ''error'') s), [])"

definition reanchor :: "session \<Rightarrow> user_entry list \<Rightarrow> nat" where
  "reanchor s sortedUsers =
     (case elementAt (users s) (currentUserIndex s) of
        None \<Rightarrow> 0
      | Some currentUser \<Rightarrow>
          (case findIndex (\<lambda>user. userId user = userId currentUser) sortedUsers of
             None \<Rightarrow> 0
           | Some foundIndex \<Rightarrow> foundIndex))"

definition fetchUsersData :: "env \<Rightarrow> session \<Rightarrow> session \<times> pending list" where
  "fetchUsersData e s =
     (case truthyValue (rotatingWebhookUrl (settings s)) of
        None \<Rightarrow>
          (snd (setImageIfChanged generateConfigRequiredImage (js ''configRequired'') s), [])
      | Some rotatingUrl \<Rightarrow>
        (case fetchRoster e rotatingUrl of
           RosterThrows \<Rightarrow> showError s
         | RosterNotOk status \<Rightarrow> showError s
         | RosterNotArray \<Rightarrow>
             (snd (setImageIfChanged generateInvalidDataImage (js ''invalidData'') s), [])
         | RosterArray usersData \<Rightarrow>
             (let sortedUsers = arraySort compareCount usersData;
                  newIndex = reanchor s sortedUsers;
                  s1 = s\<lparr>users := sortedUsers, currentUserIndex := Idx newIndex\<rparr>
              in case (if length (users s1) > 0 then prefetchCurrentAvatar e s1 else Resolved s1) of
                   Rejected s2 \<Rightarrow> showError s2
                 | Resolved s2 \<Rightarrow>
                     (let (s3, spawned) =
                            (if \<not> isFetchingNext s2 \<and> length (users s2) > 0
                             then spawnPrefetchNext s2 else (s2, []));
                          (s4, spawned') = updateDisplay s3
                      in (s4, spawned @ spawned')))))"


section \<open>The single avatar: class TeamsAvatar\<close>

text \<open>
  The settings \<open>userEmail\<close>, \<open>avatarWebhookUrl\<close> (here \<open>avatarUrlSetting\<close>) and
  \<open>messagesWebhookUrl\<close>.
\<close>

record avatar_settings =
  userEmail :: "jsstring option"
  avatarUrlSetting :: "jsstring option"
  messagesWebhookUrl :: "jsstring option"

text \<open>
  What the messages webhook yields; only the number of messages reaches the display.
\<close>

datatype messages_response =
  MessagesThrows | MessagesNotOk nat | MessagesNotArray | MessagesArray nat

record avatar_env =
  fetchUserAvatar :: "request \<Rightarrow> avatar_response"
  fetchMessages :: "request \<Rightarrow> messages_response"

text \<open>
  The fields of the instance: \<open>avatarImage\<close>, \<open>unreadCount\<close> (the length of \<open>messages\<close>),
  \<open>avatarCache\<close> (here \<open>baseCache\<close>) and \<open>lastDisplayedImageState\<close>; then the images
  sent to the button and the requests made, oldest first.
\<close>

record avatar_session =
  avatarSettings :: avatar_settings
  avatarImage :: "image option"
  unreadCount :: nat
  baseCache :: "jsstring \<rightharpoonup> image"
  lastDisplayedImageState :: "jsstring option"
  buttonImages :: "image list"
  fetchesDone :: "request list"

text \<open>The constructor.\<close>

definition newAvatarSession :: "avatar_settings \<Rightarrow> avatar_session" where
  "newAvatarSession cfg = \<lparr>avatarSettings = cfg, avatarImage = None, unreadCount = 0,
     baseCache = Map.empty, lastDisplayedImageState = None, buttonImages = [], fetchesDone = []\<rparr>"

definition avatarSetImageIfChanged ::
  "image \<Rightarrow> jsstring \<Rightarrow> avatar_session \<Rightarrow> bool \<times> avatar_session" where
  "avatarSetImageIfChanged img stateKey s =
     (if lastDisplayedImageState s = Some stateKey then (False, s)
      else (True, s\<lparr>lastDisplayedImageState := Some stateKey,
                     buttonImages := buttonImages s @ [img]\<rparr>))"

text \<open>\<open>TeamsAvatar.updateDisplay\<close>; it rejects when the overlay promise does.\<close>

definition avatarUpdateDisplay :: "avatar_session \<Rightarrow> avatar_session outcome" where
  "avatarUpdateDisplay s =
     (let stateKey = js ''avatar:'' @ interpolate (userEmail (avatarSettings s)) @ js ''_''
                       @ numToString (int (unreadCount s))
      in case avatarImage s of
           None \<Rightarrow> Resolved s
         | Some base \<Rightarrow>
             (case overlayCountOnImage base (int (unreadCount s)) of
                None \<Rightarrow> Rejected s
              | Some imageWithCount \<Rightarrow> Resolved (snd (avatarSetImageIfChanged imageWithCount stateKey s))))"

text \<open>The three awaited stages of the \<open>try\<close> body of \<open>TeamsAvatar.fetchData\<close>.\<close>

definition fetchAvatarStage :: "avatar_env \<Rightarrow> jsstring \<Rightarrow> jsstring \<Rightarrow> avatar_session \<Rightarrow> avatar_session outcome" where
  "fetchAvatarStage e email avatarUrl s =
     (case baseCache s email of
        Some img \<Rightarrow> Resolved (s\<lparr>avatarImage := Some img\<rparr>)
      | None \<Rightarrow>
          (let req = (avatarUrl, js ''user'', email);
               s0 = s\<lparr>fetchesDone := fetchesDone s @ [req]\<rparr>
           in case fetchUserAvatar e req of
                FetchThrows \<Rightarrow> Rejected s0
              | HttpNotOk status \<Rightarrow> Resolved s0
              | HttpOk None \<Rightarrow> Rejected s0
              | HttpOk (Some avatarDataUrl) \<Rightarrow>
                  Resolved (s0\<lparr>avatarImage := Some avatarDataUrl,
                               baseCache := (baseCache s0)(email \<mapsto> avatarDataUrl)\<rparr>)))"

definition fetchMessagesStage :: "avatar_env \<Rightarrow> jsstring \<Rightarrow> jsstring \<Rightarrow> avatar_session \<Rightarrow> avatar_session outcome" where
  "fetchMessagesStage e email messagesUrl s =
     (let req = (messagesUrl, js ''user'', email);
          s0 = s\<lparr>fetchesDone := fetchesDone s @ [req]\<rparr>
      in case fetchMessages e req of
           MessagesThrows \<Rightarrow> Rejected s0
         | MessagesNotOk status \<Rightarrow> Resolved s0
         | MessagesNotArray \<Rightarrow> Resolved (s0\<lparr>unreadCount := 0\<rparr>)
         | MessagesArray n \<Rightarrow> Resolved (s0\<lparr>unreadCount := n\<rparr>))"

definition fetchData :: "avatar_env \<Rightarrow> avatar_session \<Rightarrow> avatar_session" where
  "fetchData e s =
     (case (truthyValue (userEmail (avatarSettings s)),
            truthyValue (avatarUrlSetting (avatarSettings s)),
            truthyValue (messagesWebhookUrl (avatarSettings s))) of
        (Some email, Some avatarUrl, Some messagesUrl) \<Rightarrow>
           (let tried =
                 (case fetchAvatarStage e email avatarUrl s of
                    Rejected s1 \<Rightarrow> Rejected s1
                  | Resolved s1 \<Rightarrow>
                      (case fetchMessagesStage e email messagesUrl s1 of
                         Rejected s2 \<Rightarrow> Rejected s2
                       | Resolved s2 \<Rightarrow> avatarUpdateDisplay s2))
            in case tried of
                 Resolved s3 \<Rightarrow> s3
               | Rejected s3 \<Rightarrow> snd (avatarSetImageIfChanged generateErrorImage (js ''error'') s3))
      | _ \<Rightarrow>
           snd (avatarSetImageIfChanged generateConfigRequiredImage (js ''configRequired'') s))"

section \<open>Concrete rosters, settings and responses\<close>

text \<open>
  Inputs on which the theorems below are exercised: a configuration, four roster entries
  (one without a count, one bot named Workflows), a roster entry whose user id is the empty
  string, an upper-casing function for the ASCII letters, and webhooks that answer 404 for
  avatars.
\<close>

definition asciiUpper :: "jsstring \<Rightarrow> jsstring" where
  "asciiUpper s = map (\<lambda>c. if 97 \<le> c \<and> c \<le> 122 then c - 32 else c) s"

definition exampleSettings :: settings where
  "exampleSettings = \<lparr>rotatingWebhookUrl = Some (js ''https://hook/roster''),
     avatarWebhookUrl = Some (js ''https://hook/avatar''), useDisplayNameAsTitle = False,
     disableAnimation = False\<rparr>"

definition user1 :: user_entry where
  "user1 = \<lparr>userId = Some (js ''u1''), displayName = Some (js ''Ann Lee''), count = Some 3,
     fromType = Some (js ''user'')\<rparr>"

definition user2 :: user_entry where
  "user2 = \<lparr>userId = Some (js ''u2''), displayName = Some (js ''Bo''), count = Some 7,
     fromType = None\<rparr>"

definition user3 :: user_entry where
  "user3 = \<lparr>userId = Some (js ''u3''), displayName = None, count = None, fromType = None\<rparr>"

definition bot1 :: user_entry where
  "bot1 = \<lparr>userId = Some (js ''b1''), displayName = Some (js ''Workflows''), count = Some 7,
     fromType = Some (js ''bot'')\<rparr>"

definition exampleRoster :: "user_entry list" where
  "exampleRoster = [user1, user2, user3, bot1]"

definition exampleEnv :: env where
  "exampleEnv = \<lparr>toUpperCase = asciiUpper, fetchAvatar = (\<lambda>req. HttpNotOk 404),
     fetchRoster = (\<lambda>url. RosterArray exampleRoster)\<rparr>"

definition guest :: user_entry where
  "guest = \<lparr>userId = Some [], displayName = Some (js ''Guest''), count = None,
     fromType = None\<rparr>"

definition jpegAvatar :: image where
  "jpegAvatar = DataUrl (js ''image/jpeg'') (js ''/9j/4AAQSkZJRg'') True"

definition pairEnv :: env where
  "pairEnv = \<lparr>toUpperCase = asciiUpper, fetchAvatar = (\<lambda>req. HttpNotOk 404),
     fetchRoster = (\<lambda>url. RosterArray [user1, user2])\<rparr>"

definition guestEnv :: env where
  "guestEnv = \<lparr>toUpperCase = asciiUpper, fetchAvatar = (\<lambda>req. HttpNotOk 404),
     fetchRoster = (\<lambda>url. RosterArray [guest, user1])\<rparr>"

text \<open>A fresh session after its first poll of a roster holding that entry.\<close>

definition afterGuestPoll :: session where
  "afterGuestPoll = fst (fetchUsersData guestEnv (newSession exampleSettings))"

text \<open>
  A fresh session after its first poll of a two-user roster, with the pre-fetch of the
  next avatar still pending; the same session once that pre-fetch has settled; and the
  session after the carousel timer has then started a crossfade.
\<close>

definition afterPairPoll :: "session \<times> pending list" where
  "afterPairPoll = fetchUsersData pairEnv (newSession exampleSettings)"

definition bothLoaded :: session where
  "bothLoaded =
     (case snd afterPairPoll of
        [] \<Rightarrow> fst afterPairPoll
      | p # ps \<Rightarrow>
          (case prefetchFinish pairEnv p (fst afterPairPoll) of
             Resolved s \<Rightarrow> s
           | Rejected s \<Rightarrow> s))"

definition stalled :: session where
  "stalled = fst (showNextUserWithTransition bothLoaded)"


text \<open>The composited initials avatars of \<open>user1\<close> (Ann Lee, count 3) and \<open>user2\<close> (Bo, count 7).\<close>

definition avatarAnn :: image where
  "avatarAnn =
     Png [DrawImage (Png [FillRect (js ''#AFEEEE'') 1, StrokeText (js ''AL'') (js ''#000000'') 2 1,
                          FillText (js ''AL'') (js ''#ffffff'') 1]) 1,
          StrokeText (js ''3'') (js ''#000000'') 5 (1 / 2),
          FillText (js ''3'') (js ''#ffffff'') (1 / 2)]"

definition avatarBo :: image where
  "avatarBo =
     Png [DrawImage (Png [FillRect (js ''#AFEEEE'') 1, StrokeText (js ''B'') (js ''#000000'') 2 1,
                          FillText (js ''B'') (js ''#ffffff'') 1]) 1,
          StrokeText (js ''7'') (js ''#000000'') 5 (1 / 2),
          FillText (js ''7'') (js ''#ffffff'') (1 / 2)]"

text \<open>The roster of the two-user poll as installed, before its first avatar resolution.\<close>

definition beforeFirstResolve :: session where
  "beforeFirstResolve =
     (newSession exampleSettings)\<lparr>users := [user2, user1], currentUserIndex := Idx 0\<rparr>"

text \<open>A single-avatar button, an avatar webhook that answers 404 and one that is unreachable.\<close>

definition singleSettings :: avatar_settings where
  "singleSettings = \<lparr>userEmail = Some (js ''ann@example.com''),
     avatarUrlSetting = Some (js ''https://hook/avatar''),
     messagesWebhookUrl = Some (js ''https://hook/messages'')\<rparr>"

definition single404Env :: avatar_env where
  "single404Env = \<lparr>fetchUserAvatar = (\<lambda>req. HttpNotOk 404),
     fetchMessages = (\<lambda>req. MessagesArray 2)\<rparr>"

definition singleThrowEnv :: avatar_env where
  "singleThrowEnv = \<lparr>fetchUserAvatar = (\<lambda>req. FetchThrows),
     fetchMessages = (\<lambda>req. MessagesArray 2)\<rparr>"

text \<open>
  An avatar webhook that answers 404 beside a messages webhook that is unreachable, and a
  single-avatar button after a settings change, which clears the cache and the last
  displayed state and keeps the avatar image.
\<close>

definition singleMessagesThrowEnv :: avatar_env where
  "singleMessagesThrowEnv = \<lparr>fetchUserAvatar = (\<lambda>req. HttpNotOk 404),
     fetchMessages = (\<lambda>req. MessagesThrows)\<rparr>"

definition afterSettingsChange :: avatar_session where
  "afterSettingsChange = (newAvatarSession singleSettings)\<lparr>avatarImage := Some jpegAvatar\<rparr>"


section \<open>Reference definitions for the properties\<close>

text \<open>
  The hash as the specification words it: a 32-bit rolling hash \<open>h = h * 31 + charCode\<close>,
  read as a signed number.
\<close>

definition rollingHash32 :: "jsstring \<Rightarrow> 32 word" where
  "rollingHash32 dname = foldl (\<lambda>h c. h * 31 + of_nat c) 0 dname"

text \<open>
  The tokens of a display name as the specification words them: the maximal runs of
  code units other than the space, in order.  \<open>cur\<close> is the run being read.
\<close>

fun tokenize :: "jsstring \<Rightarrow> jsstring \<Rightarrow> jsstring list" where
  "tokenize cur [] = (if cur = [] then [] else [cur])"
| "tokenize cur (c # cs) =
     (if c = 32 then (if cur = [] then tokenize [] cs else cur # tokenize [] cs)
      else tokenize (cur @ [c]) cs)"

text \<open>What is observed of a session in the examples: the carousel fields and the display.\<close>

definition observe ::
  "session \<Rightarrow> user_entry list \<times> jsindex \<times> image option \<times> image option \<times> bool \<times> bool
     \<times> jsstring option \<times> image list \<times> nat \<times> nat" where
  "observe s = (users s, currentUserIndex s, currentAvatarImage s, nextAvatarImage s,
     isFetchingNext s, isTransitioning s, lastDisplayedState s, shownImages s,
     currentFrameIndex s, length (transitionFrames s))"

text \<open>
  A call of \<open>prefetchNextAvatar\<close> or \<open>prefetchCurrentAvatar\<close> is a resolution for the user
  id \<open>uid\<close> and the count \<open>c\<close> when it passes its guards with a user of that id and count:
  no resolution of its kind is in flight, and the user it picks has the truthy id \<open>uid\<close>
  and \<open>count || 0 = c\<close>.
\<close>

definition resolves :: "slot \<Rightarrow> session \<Rightarrow> jsstring \<Rightarrow> int \<Rightarrow> bool" where
  "resolves slot s uid c =
     (\<not> isFetching slot s \<and>
      (case elementAt (users s) (slotIndex slot s) of
         None \<Rightarrow> False
       | Some u \<Rightarrow> userId u = Some uid \<and> uid \<noteq> [] \<and> countOrZero u = c))"






section \<open>Simplifier setup\<close>

declare digits.simps [simp del]
declare frameLoop.simps [simp del]


section \<open>Properties of the model\<close>

subsection \<open>Sorting and searching\<close>

lemma insertBy_filter_key:
  "filter (\<lambda>u. countOrZero u = k) (insertBy compareCount x ys) =
     (if countOrZero x = k then x # filter (\<lambda>u. countOrZero u = k) ys
      else filter (\<lambda>u. countOrZero u = k) ys)"
  by (induction ys) (auto simp: compareCount_def)

lemma arraySort_filter_key:
  "filter (\<lambda>u. countOrZero u = k) (arraySort compareCount xs) = filter (\<lambda>u. countOrZero u = k) xs"
  by (induction xs) (simp_all add: insertBy_filter_key)

lemma set_insertBy: "set (insertBy cmp x ys) = insert x (set ys)"
  by (induction ys) auto

lemma set_arraySort: "set (arraySort cmp xs) = set xs"
  by (induction xs) (simp_all add: set_insertBy)

lemma length_insertBy: "length (insertBy cmp x ys) = Suc (length ys)"
  by (induction ys) auto

lemma length_arraySort: "length (arraySort cmp xs) = length xs"
  by (induction xs) (simp_all add: length_insertBy)

lemma sorted_insertBy:
  "sorted_wrt (\<lambda>a b. countOrZero b \<le> countOrZero a) ys \<Longrightarrow>
   sorted_wrt (\<lambda>a b. countOrZero b \<le> countOrZero a) (insertBy compareCount x ys)"
  by (induction ys) (auto simp: compareCount_def set_insertBy)

lemma sorted_arraySort:
  "sorted_wrt (\<lambda>a b. countOrZero b \<le> countOrZero a) (arraySort compareCount xs)"
  by (induction xs) (simp_all add: sorted_insertBy)

lemma findIndex_Some:
  "findIndex p xs = Some i \<Longrightarrow> i < length xs \<and> p (xs ! i) \<and> (\<forall>j<i. \<not> p (xs ! j))"
proof (induction xs arbitrary: i)
  case Nil
  then show ?case by simp
next
  case (Cons x xs)
  show ?case
  proof (cases "p x")
    case True
    with Cons.prems show ?thesis by simp
  next
    case False
    with Cons.prems obtain k where k: "findIndex p xs = Some k" "i = Suc k"
      by (auto split: option.splits)
    from Cons.IH[OF k(1)] False k(2) show ?thesis
      by (auto simp: nth_Cons split: nat.splits)
  qed
qed

lemma findIndex_None: "findIndex p xs = None \<longleftrightarrow> (\<forall>x\<in>set xs. \<not> p x)"
  by (induction xs) (auto split: option.splits)

subsection \<open>The name hash is a 32-bit rolling hash\<close>

lemma toInt32_sint: "toInt32 x = sint (word_of_int x :: 32 word)"
  by (simp add: toInt32_def Word.int_word_sint)

lemma word_of_sint32: "word_of_int (sint (w :: 32 word)) = w"
  by (simp flip: scast_eq)

lemma hashStep_word: "hashStep (sint (w :: 32 word)) b = sint (w * 31 + of_nat b)"
proof -
  have shl: "shiftLeft (sint w) 5 = sint (w * 32)"
    by (simp add: shiftLeft_def toInt32_sint word_of_sint32)
  have "hashStep (sint w) b = toInt32 (sint (w * 32) - sint w + int b)"
    by (simp add: hashStep_def Let_def bitAnd_def shl)
  also have "\<dots> = sint (word_of_int (sint (w * 32) - sint w + int b) :: 32 word)"
    by (rule toInt32_sint)
  also have "(word_of_int (sint (w * 32) - sint w + int b) :: 32 word) = w * 32 - w + of_nat b"
    by (simp add: word_of_sint32)
  also have "w * 32 - w + of_nat b = w * 31 + of_nat b"
    by (simp add: algebra_simps)
  finally show ?thesis .
qed

lemma foldl_hashStep: "foldl hashStep (sint (w :: 32 word)) cs = sint (foldl (\<lambda>h c. h * 31 + of_nat c) w cs)"
  by (induction cs arbitrary: w) (simp_all add: hashStep_word)

lemma nameHash_rolling: "nameHash dname = sint (rollingHash32 dname)"
  using foldl_hashStep[of 0 dname] by (simp add: nameHash_def rollingHash32_def)

subsection \<open>Splitting on spaces yields the tokens\<close>

lemma split_not_Nil: "split sep s \<noteq> []"
  by (induction s) (auto split: list.splits)

lemma split_tokenize:
  "filter (\<lambda>name. name \<noteq> []) ((cur @ hd (split 32 cs)) # tl (split 32 cs)) = tokenize cur cs"
proof (induction cs arbitrary: cur)
  case Nil
  then show ?case by simp
next
  case (Cons c cs)
  obtain t ts where sp: "split 32 cs = t # ts"
    using split_not_Nil[of 32 cs] by (cases "split 32 cs") auto
  show ?case
  proof (cases "c = 32")
    case True
    with Cons.IH[of "[]"] sp show ?thesis by simp
  next
    case False
    with Cons.IH[of "cur @ [c]"] sp show ?thesis by simp
  qed
qed

lemma names_tokenize: "filter (\<lambda>name. name \<noteq> []) (split 32 dname) = tokenize [] dname"
proof -
  obtain t ts where sp: "split 32 dname = t # ts"
    using split_not_Nil[of 32 dname] by (cases "split 32 dname") auto
  with split_tokenize[of "[]" dname] show ?thesis by simp
qed

lemma initialsOf_tokens:
  "initialsOf upper dname ov =
     (case truthyValue ov of
        Some initials \<Rightarrow> initials
      | None \<Rightarrow> concat (map (\<lambda>t. upper (take 1 t)) (take 2 (tokenize [] dname))))"
  by (simp add: initialsOf_def Let_def names_tokenize take_map split: option.splits)

lemma generateInitialsImage_ops:
  "generateInitialsImage upper dname ov =
     Png [FillRect (colors ! nat (\<bar>sint (rollingHash32 dname)\<bar> mod 8)) 1,
          StrokeText (initialsOf upper dname ov) (js ''#000000'') 2 1,
          FillText (initialsOf upper dname ov) (js ''#ffffff'') 1]"
  by (simp add: generateInitialsImage_def Let_def createCanvas_def fillRect_def strokeText_def
        fillText_def toDataURL_def nameHash_rolling colors_def)

subsection \<open>The frame loop\<close>

lemma drawFrame_canvas:
  "globalAlpha c = 1 \<Longrightarrow>
   globalAlpha (drawFrame cur nxt k c) = 1 \<and>
   drawn (drawFrame cur nxt k c) =
     [FillRect (js ''#000000'') 1, DrawImage cur (1 - of_nat k / 24), DrawImage nxt (of_nat k / 24)]"
  by (simp add: drawFrame_def Let_def fillRect_def drawImage_def)

lemma frameLoop_frames:
  "globalAlpha c = 1 \<Longrightarrow>
   frameLoop cur nxt k c frames =
     frames @ map (\<lambda>i. Png [FillRect (js ''#000000'') 1, DrawImage cur (1 - of_nat i / 24),
                             DrawImage nxt (of_nat i / 24)]) [k..<25]"
proof (induction cur nxt k c frames rule: frameLoop.induct)
  case (1 cur nxt k c frames)
  show ?case
  proof (cases "k \<le> 24")
    case True
    note d = drawFrame_canvas[OF "1.prems", of cur nxt k]
    from True have up: "[k..<25] = k # [k + 1..<25]"
      by (simp add: upt_conv_Cons)
    from "1.IH"[OF True refl] d
    have "frameLoop cur nxt (k + 1) (drawFrame cur nxt k c) (frames @ [toDataURL (drawFrame cur nxt k c)])
           = (frames @ [toDataURL (drawFrame cur nxt k c)]) @
             map (\<lambda>i. Png [FillRect (js ''#000000'') 1, DrawImage cur (1 - of_nat i / 24),
                             DrawImage nxt (of_nat i / 24)]) [k + 1..<25]"
      by simp
    with True d up show ?thesis
      by (subst frameLoop.simps) (simp add: Let_def toDataURL_def)
  next
    case False
    then show ?thesis by (subst frameLoop.simps) simp
  qed
qed

subsection \<open>Field updates of the helpers\<close>

lemma setFetching_fields [simp]:
  "users (setFetching slot b s) = users s"
  "currentUserIndex (setFetching slot b s) = currentUserIndex s"
  "settings (setFetching slot b s) = settings s"
  "avatarCache (setFetching slot b s) = avatarCache s"
  "shownImages (setFetching slot b s) = shownImages s"
  "shownTitles (setFetching slot b s) = shownTitles s"
  "lastDisplayedState (setFetching slot b s) = lastDisplayedState s"
  "workDone (setFetching slot b s) = workDone s"
  "isTransitioning (setFetching slot b s) = isTransitioning s"
  "transitionFrames (setFetching slot b s) = transitionFrames s"
  "currentAvatarImage (setFetching slot b s) = currentAvatarImage s"
  "nextAvatarImage (setFetching slot b s) = nextAvatarImage s"
  "isFetching slot (setFetching slot b s) = b"
  by (cases slot; simp)+

lemma setSlotImage_fields [simp]:
  "users (setSlotImage slot img s) = users s"
  "currentUserIndex (setSlotImage slot img s) = currentUserIndex s"
  "settings (setSlotImage slot img s) = settings s"
  "avatarCache (setSlotImage slot img s) = avatarCache s"
  "shownImages (setSlotImage slot img s) = shownImages s"
  "shownTitles (setSlotImage slot img s) = shownTitles s"
  "lastDisplayedState (setSlotImage slot img s) = lastDisplayedState s"
  "workDone (setSlotImage slot img s) = workDone s"
  "isTransitioning (setSlotImage slot img s) = isTransitioning s"
  "transitionFrames (setSlotImage slot img s) = transitionFrames s"
  "isFetchingNext (setSlotImage slot img s) = isFetchingNext s"
  "isFetchingCurrent (setSlotImage slot img s) = isFetchingCurrent s"
  "slotImage slot (setSlotImage slot img s) = Some img"
  by (cases slot; simp)+

lemma storeAvatar_fields [simp]:
  "users (storeAvatar slot key img s) = users s"
  "currentUserIndex (storeAvatar slot key img s) = currentUserIndex s"
  "settings (storeAvatar slot key img s) = settings s"
  "avatarCache (storeAvatar slot key img s) = (avatarCache s)(key \<mapsto> img)"
  "shownImages (storeAvatar slot key img s) = shownImages s"
  "shownTitles (storeAvatar slot key img s) = shownTitles s"
  "lastDisplayedState (storeAvatar slot key img s) = lastDisplayedState s"
  "workDone (storeAvatar slot key img s) = workDone s"
  "isTransitioning (storeAvatar slot key img s) = isTransitioning s"
  "transitionFrames (storeAvatar slot key img s) = transitionFrames s"
  "isFetchingNext (storeAvatar slot key img s) = isFetchingNext s"
  "isFetchingCurrent (storeAvatar slot key img s) = isFetchingCurrent s"
  "slotImage slot (storeAvatar slot key img s) = Some img"
  by (cases slot; simp add: storeAvatar_def Let_def)+

lemma setImageIfChanged_keeps:
  "users (snd (setImageIfChanged img k s)) = users s"
  "currentUserIndex (snd (setImageIfChanged img k s)) = currentUserIndex s"
  "settings (snd (setImageIfChanged img k s)) = settings s"
  "isTransitioning (snd (setImageIfChanged img k s)) = isTransitioning s"
  "transitionFrames (snd (setImageIfChanged img k s)) = transitionFrames s"
  "currentAvatarImage (snd (setImageIfChanged img k s)) = currentAvatarImage s"
  "nextAvatarImage (snd (setImageIfChanged img k s)) = nextAvatarImage s"
  "avatarCache (snd (setImageIfChanged img k s)) = avatarCache s"
  "workDone (snd (setImageIfChanged img k s)) = workDone s"
  "isFetchingNext (snd (setImageIfChanged img k s)) = isFetchingNext s"
  "isFetchingCurrent (snd (setImageIfChanged img k s)) = isFetchingCurrent s"
  by (simp_all add: setImageIfChanged_def setImage_def)

lemma setImageIfChanged_shown:
  "shownImages (snd (setImageIfChanged img k s)) =
     (if lastDisplayedState s = Some k then shownImages s else shownImages s @ [img])"
  by (simp add: setImageIfChanged_def setImage_def)

lemma setImageIfChanged_last:
  "lastDisplayedState (snd (setImageIfChanged img k s)) = Some k"
  by (simp add: setImageIfChanged_def setImage_def)

lemma setTitle_keeps:
  "users (setTitle t s) = users s"
  "currentUserIndex (setTitle t s) = currentUserIndex s"
  "settings (setTitle t s) = settings s"
  "isTransitioning (setTitle t s) = isTransitioning s"
  "transitionFrames (setTitle t s) = transitionFrames s"
  "currentAvatarImage (setTitle t s) = currentAvatarImage s"
  "nextAvatarImage (setTitle t s) = nextAvatarImage s"
  "avatarCache (setTitle t s) = avatarCache s"
  "workDone (setTitle t s) = workDone s"
  "shownImages (setTitle t s) = shownImages s"
  "lastDisplayedState (setTitle t s) = lastDisplayedState s"
  "isFetchingNext (setTitle t s) = isFetchingNext s"
  "isFetchingCurrent (setTitle t s) = isFetchingCurrent s"
  by (simp_all add: setTitle_def)

subsection \<open>Resolution: the synchronous prefix\<close>

lemma prefetchStart_cases:
  assumes "prefetchStart slot s = (s', p)"
  shows "(s' = s \<and> p = None)
       \<or> (\<exists>img. s' = setFetching slot False (setSlotImage slot img (setFetching slot True s)) \<and> p = None)
       \<or> (s' = setFetching slot True s \<and> p \<noteq> None)"
  using assms
  by (auto simp: prefetchStart_def Let_def split: if_splits option.splits)

lemma prefetchStart_keeps:
  assumes "prefetchStart slot s = (s', p)"
  shows "users s' = users s \<and> currentUserIndex s' = currentUserIndex s \<and> settings s' = settings s
       \<and> shownImages s' = shownImages s \<and> shownTitles s' = shownTitles s
       \<and> lastDisplayedState s' = lastDisplayedState s \<and> workDone s' = workDone s
       \<and> isTransitioning s' = isTransitioning s \<and> avatarCache s' = avatarCache s
       \<and> transitionFrames s' = transitionFrames s"
  using prefetchStart_cases[OF assms] by auto

lemma spawnPrefetchNext_keeps:
  assumes "spawnPrefetchNext s = (s', ps)"
  shows "users s' = users s \<and> currentUserIndex s' = currentUserIndex s \<and> settings s' = settings s
       \<and> shownImages s' = shownImages s \<and> shownTitles s' = shownTitles s
       \<and> lastDisplayedState s' = lastDisplayedState s \<and> workDone s' = workDone s
       \<and> isTransitioning s' = isTransitioning s \<and> avatarCache s' = avatarCache s
       \<and> transitionFrames s' = transitionFrames s"
proof (cases "prefetchStart NextSlot s")
  case (Pair s1 p)
  with assms have "s' = s1" by (auto simp: spawnPrefetchNext_def split: option.splits)
  with prefetchStart_keeps[OF Pair] show ?thesis by simp
qed

lemma spawnPrefetchNext_current:
  assumes "spawnPrefetchNext s = (s', ps)"
  shows "currentAvatarImage s' = currentAvatarImage s"
proof (cases "prefetchStart NextSlot s")
  case (Pair s1 p)
  with assms have "s' = s1" by (auto simp: spawnPrefetchNext_def split: option.splits)
  with prefetchStart_cases[OF Pair] show ?thesis by auto
qed

lemma spawnPrefetchNext_in_flight:
  "isFetchingNext s \<Longrightarrow> spawnPrefetchNext s = (s, [])"
  by (simp add: spawnPrefetchNext_def prefetchStart_def)

subsection \<open>Resolution: the continuation\<close>

lemma generateInitialsImage_Png: "\<exists>ops. generateInitialsImage up n ov = Png ops"
  by (simp add: generateInitialsImage_def Let_def toDataURL_def)

lemma overlay_Png: "\<exists>img. overlayCountOnImage (Png ops) c = Some img"
  by (simp add: overlayCountOnImage_def Let_def)

lemma overlay_initials: "\<exists>img. overlayCountOnImage (generateInitialsImage up n ov) c = Some img"
  using generateInitialsImage_Png[of up n ov] overlay_Png by auto

lemma initialsPath_resolves:
  "\<exists>img. overlayCountOnImage (generateInitialsImage (toUpperCase e) (nameOrId u uid) ov) (countOrZero u) = Some img
     \<and> initialsPath e slot u uid ov s =
         Resolved (storeAvatar slot (cacheKey uid (countOrZero u)) img
                    (s\<lparr>workDone := workDone s @ [InitialsRender (nameOrId u uid), OverlayRender]\<rparr>))"
proof -
  obtain img where "overlayCountOnImage (generateInitialsImage (toUpperCase e) (nameOrId u uid) ov) (countOrZero u) = Some img"
    using overlay_initials by blast
  then show ?thesis by (auto simp: initialsPath_def Let_def)
qed

lemma catchFinally_Resolved:
  "catchFinally e slot u uid (Resolved s1) = Resolved (setFetching slot False s1)"
  by (simp add: catchFinally_def)

lemma catchFinally_Rejected:
  "\<exists>img. overlayCountOnImage (generateInitialsImage (toUpperCase e) (nameOrId u uid) None) (countOrZero u) = Some img
     \<and> catchFinally e slot u uid (Rejected s1) =
       Resolved (setFetching slot False (storeAvatar slot (cacheKey uid (countOrZero u)) img
          (s1\<lparr>workDone := workDone s1 @ [InitialsRender (nameOrId u uid), OverlayRender]\<rparr>)))"
  using initialsPath_resolves[of e u uid None slot s1]
  by (auto simp: catchFinally_def)

lemma prefetchFinish_result:
  "\<exists>img w. prefetchFinish e (Pending slot br u uid) s =
     Resolved (setFetching slot False (storeAvatar slot (cacheKey uid (countOrZero u)) img
                 (s\<lparr>workDone := workDone s @ w\<rparr>)))"
proof (cases br)
  case BotBranch
  obtain img where "initialsPath e slot u uid (workflowsOverride u) s =
         Resolved (storeAvatar slot (cacheKey uid (countOrZero u)) img
                    (s\<lparr>workDone := workDone s @ [InitialsRender (nameOrId u uid), OverlayRender]\<rparr>))"
    using initialsPath_resolves[of e u uid "workflowsOverride u" slot s] by blast
  with BotBranch show ?thesis
    by (intro exI[of _ img] exI[of _ "[InitialsRender (nameOrId u uid), OverlayRender]"]) simp
next
  case NoUrlBranch
  obtain img where "initialsPath e slot u uid None s =
         Resolved (storeAvatar slot (cacheKey uid (countOrZero u)) img
                    (s\<lparr>workDone := workDone s @ [InitialsRender (nameOrId u uid), OverlayRender]\<rparr>))"
    using initialsPath_resolves[of e u uid None slot s] by blast
  with NoUrlBranch show ?thesis
    by (intro exI[of _ img] exI[of _ "[InitialsRender (nameOrId u uid), OverlayRender]"])
       (simp add: catchFinally_Resolved)
next
  case (FetchBranch avatarUrl)
  let ?req = "(avatarUrl, js ''userId'', uid)"
  let ?s0 = "s\<lparr>workDone := workDone s @ [NetFetch ?req]\<rparr>"
  let ?s1 = "?s0\<lparr>workDone := workDone ?s0 @ [OverlayRender]\<rparr>"
  let ?fallback = "[InitialsRender (nameOrId u uid), OverlayRender]"
  have fromS0: "\<exists>img. catchFinally e slot u uid (Rejected ?s0) =
       Resolved (setFetching slot False (storeAvatar slot (cacheKey uid (countOrZero u)) img
          (s\<lparr>workDone := workDone s @ (NetFetch ?req # ?fallback)\<rparr>)))"
    using catchFinally_Rejected[of e u uid slot ?s0] by auto
  have fromS1: "\<exists>img. catchFinally e slot u uid (Rejected ?s1) =
       Resolved (setFetching slot False (storeAvatar slot (cacheKey uid (countOrZero u)) img
          (s\<lparr>workDone := workDone s @ (NetFetch ?req # OverlayRender # ?fallback)\<rparr>)))"
    using catchFinally_Rejected[of e u uid slot ?s1] by auto
  show ?thesis
  proof (cases "fetchAvatar e ?req")
    case FetchThrows
    with FetchBranch fromS0 show ?thesis
      by (simp add: Let_def) blast
  next
    case (HttpNotOk status)
    obtain img where "initialsPath e slot u uid None ?s0 =
         Resolved (storeAvatar slot (cacheKey uid (countOrZero u)) img
                    (?s0\<lparr>workDone := workDone ?s0 @ ?fallback\<rparr>))"
      using initialsPath_resolves[of e u uid None slot ?s0] by blast
    with HttpNotOk FetchBranch show ?thesis
      by (intro exI[of _ img] exI[of _ "NetFetch ?req # ?fallback"])
         (simp add: Let_def catchFinally_Resolved)
  next
    case (HttpOk body)
    show ?thesis
    proof (cases body)
      case None
      with HttpOk FetchBranch fromS0 show ?thesis
        by (simp add: Let_def) blast
    next
      case (Some baseImage)
      note body = this
      show ?thesis
      proof (cases "overlayCountOnImage baseImage (countOrZero u)")
        case None
        with body HttpOk FetchBranch fromS1 show ?thesis
          by (simp add: Let_def) blast
      next
        case (Some img)
        with body HttpOk FetchBranch show ?thesis
          by (intro exI[of _ img] exI[of _ "[NetFetch ?req, OverlayRender]"])
             (simp add: Let_def catchFinally_Resolved)
      qed
    qed
  qed
qed

lemma prefetchFinish_total: "\<exists>s'. prefetchFinish e p s = Resolved s'"
proof (cases p)
  case (Pending slot br u uid)
  then show ?thesis using prefetchFinish_result[of e slot br u uid s] by auto
qed

lemma prefetchFinish_keeps:
  assumes "prefetchFinish e p s = Resolved s'"
  shows "users s' = users s \<and> currentUserIndex s' = currentUserIndex s \<and> settings s' = settings s
       \<and> shownImages s' = shownImages s \<and> shownTitles s' = shownTitles s
       \<and> lastDisplayedState s' = lastDisplayedState s
       \<and> isTransitioning s' = isTransitioning s \<and> transitionFrames s' = transitionFrames s"
proof (cases p)
  case (Pending slot br u uid)
  then show ?thesis using prefetchFinish_result[of e slot br u uid s] assms by auto
qed

lemma prefetchAvatar_total: "\<exists>s'. prefetchAvatar e slot s = Resolved s'"
proof (cases "prefetchStart slot s")
  case (Pair s1 p)
  then show ?thesis
    using prefetchFinish_total by (cases p) (auto simp: prefetchAvatar_def)
qed

lemma prefetchAvatar_keeps:
  assumes "prefetchAvatar e slot s = Resolved s'"
  shows "users s' = users s \<and> currentUserIndex s' = currentUserIndex s \<and> settings s' = settings s
       \<and> shownImages s' = shownImages s \<and> shownTitles s' = shownTitles s
       \<and> lastDisplayedState s' = lastDisplayedState s
       \<and> isTransitioning s' = isTransitioning s \<and> transitionFrames s' = transitionFrames s"
proof (cases "prefetchStart slot s")
  case (Pair s1 p)
  note start = prefetchStart_keeps[OF Pair]
  show ?thesis
  proof (cases p)
    case None
    with Pair assms start show ?thesis by (simp add: prefetchAvatar_def)
  next
    case (Some q)
    with Pair assms have "prefetchFinish e q s1 = Resolved s'" by (simp add: prefetchAvatar_def)
    from prefetchFinish_keeps[OF this] start show ?thesis by simp
  qed
qed

subsection \<open>Display updates\<close>

lemma updateDisplay_keeps:
  assumes "updateDisplay s = (s', ps)"
  shows "users s' = users s \<and> currentUserIndex s' = currentUserIndex s \<and> settings s' = settings s
       \<and> isTransitioning s' = isTransitioning s \<and> transitionFrames s' = transitionFrames s
       \<and> avatarCache s' = avatarCache s \<and> workDone s' = workDone s"
proof (cases "length (users s) = 0")
  case True
  with assms show ?thesis
    by (cases "useDisplayNameAsTitle (settings s)")
       (auto simp: updateDisplay_def Let_def setImageIfChanged_keeps setTitle_keeps)
next
  case False
  show ?thesis
  proof (cases "currentAvatarImage s")
    case (Some img)
    with False assms show ?thesis
      by (auto simp: updateDisplay_def Let_def setImageIfChanged_keeps setTitle_keeps)
  next
    case None
    note cur = this
    show ?thesis
    proof (cases "nextAvatarImage s")
      case None
      with cur False assms show ?thesis
        by (auto simp: updateDisplay_def Let_def setTitle_keeps)
    next
      case (Some img)
      let ?s1 = "snd (setImageIfChanged img (stateKeyOf s) s)"
      let ?s2 = "?s1\<lparr>currentAvatarImage := nextAvatarImage ?s1, nextAvatarImage := None\<rparr>"
      obtain s3 qs where sp: "spawnPrefetchNext ?s2 = (s3, qs)" by (cases "spawnPrefetchNext ?s2")
      with cur Some False assms have "s' = setTitle (titleOf s) s3"
        by (auto simp: updateDisplay_def Let_def)
      with spawnPrefetchNext_keeps[OF sp] show ?thesis
        by (simp add: setTitle_keeps setImageIfChanged_keeps)
    qed
  qed
qed

lemma updateDisplay_current:
  assumes "users s \<noteq> []" and "currentAvatarImage s = Some img"
  shows "updateDisplay s = (setTitle (titleOf s) (snd (setImageIfChanged img (stateKeyOf s) s)), [])"
  using assms by (simp add: updateDisplay_def Let_def)

lemma updateDisplay_blank:
  assumes "users s \<noteq> []" and "currentAvatarImage s = None" and "nextAvatarImage s = None"
  shows "updateDisplay s = (setTitle (titleOf s) s, [])"
  using assms by (simp add: updateDisplay_def Let_def)


lemma stateKeyOf_cong:
  "users s' = users s \<Longrightarrow> currentUserIndex s' = currentUserIndex s \<Longrightarrow> stateKeyOf s' = stateKeyOf s"
  by (simp add: stateKeyOf_def)

lemma updateDisplay_shown:
  "shownImages (fst (updateDisplay s)) =
     (if users s = [] then
        (if lastDisplayedState s = Some (js ''noUsers'') then shownImages s
         else shownImages s @ [generateNoUsersImage])
      else
        (case currentAvatarImage s of
           Some img \<Rightarrow>
             (if lastDisplayedState s = Some (stateKeyOf s) then shownImages s
              else shownImages s @ [img])
         | None \<Rightarrow>
             (case nextAvatarImage s of
                Some img \<Rightarrow>
                  (if lastDisplayedState s = Some (stateKeyOf s) then shownImages s
                   else shownImages s @ [img])
              | None \<Rightarrow> shownImages s)))"
proof (cases "users s = []")
  case True
  then show ?thesis
    by (cases "useDisplayNameAsTitle (settings s)")
       (simp_all add: updateDisplay_def Let_def setTitle_keeps setImageIfChanged_keeps
          setImageIfChanged_shown)
next
  case False
  show ?thesis
  proof (cases "currentAvatarImage s")
    case (Some img)
    with False show ?thesis
      by (simp add: updateDisplay_current setTitle_keeps setImageIfChanged_shown)
  next
    case None
    note cur = this
    show ?thesis
    proof (cases "nextAvatarImage s")
      case None
      with cur False show ?thesis by (simp add: updateDisplay_blank setTitle_keeps)
    next
      case (Some img)
      let ?s1 = "snd (setImageIfChanged img (stateKeyOf s) s)"
      let ?s2 = "?s1\<lparr>currentAvatarImage := nextAvatarImage ?s1, nextAvatarImage := None\<rparr>"
      obtain s3 qs where sp: "spawnPrefetchNext ?s2 = (s3, qs)" by (cases "spawnPrefetchNext ?s2")
      with cur Some False have "updateDisplay s = (setTitle (titleOf s) s3, qs)"
        by (simp add: updateDisplay_def Let_def)
      with spawnPrefetchNext_keeps[OF sp] cur Some False show ?thesis
        by (simp add: setTitle_keeps setImageIfChanged_shown)
    qed
  qed
qed

lemma updateDisplay_image:
  "currentAvatarImage (fst (updateDisplay s)) =
     (case currentAvatarImage s of
        Some img \<Rightarrow> Some img
      | None \<Rightarrow> if users s = [] then None else nextAvatarImage s)"
proof (cases "users s = []")
  case True
  then show ?thesis
    by (cases "useDisplayNameAsTitle (settings s)")
       (simp_all add: updateDisplay_def Let_def setTitle_keeps setImageIfChanged_keeps
          split: option.splits)
next
  case False
  show ?thesis
  proof (cases "currentAvatarImage s")
    case (Some img)
    with False show ?thesis
      by (simp add: updateDisplay_current setTitle_keeps setImageIfChanged_keeps)
  next
    case None
    note cur = this
    show ?thesis
    proof (cases "nextAvatarImage s")
      case None
      with cur False show ?thesis by (simp add: updateDisplay_blank setTitle_keeps)
    next
      case (Some img)
      let ?s1 = "snd (setImageIfChanged img (stateKeyOf s) s)"
      let ?s2 = "?s1\<lparr>currentAvatarImage := nextAvatarImage ?s1, nextAvatarImage := None\<rparr>"
      obtain s3 qs where sp: "spawnPrefetchNext ?s2 = (s3, qs)" by (cases "spawnPrefetchNext ?s2")
      with cur Some False have "updateDisplay s = (setTitle (titleOf s) s3, qs)"
        by (simp add: updateDisplay_def Let_def)
      with spawnPrefetchNext_current[OF sp] cur Some False show ?thesis
        by (simp add: setTitle_keeps setImageIfChanged_keeps)
    qed
  qed
qed


lemma showError_keeps:
  "users (fst (showError s)) = users s" "currentUserIndex (fst (showError s)) = currentUserIndex s"
  by (simp_all add: showError_def setImageIfChanged_keeps)

subsection \<open>The poll\<close>

lemma fetchUsersData_roster:
  assumes "rotatingWebhookUrl (settings s) = Some rotatingUrl" and "rotatingUrl \<noteq> []"
    and "fetchRoster e rotatingUrl = RosterArray usersData"
  shows "users (fst (fetchUsersData e s)) = arraySort compareCount usersData
       \<and> currentUserIndex (fst (fetchUsersData e s)) = Idx (reanchor s (arraySort compareCount usersData))"
proof -
  let ?sorted = "arraySort compareCount usersData"
  let ?s1 = "s\<lparr>users := ?sorted, currentUserIndex := Idx (reanchor s ?sorted)\<rparr>"
  obtain s2 where s2: "(if length (users ?s1) > 0 then prefetchCurrentAvatar e ?s1 else Resolved ?s1) = Resolved s2"
    using prefetchAvatar_total[of e CurrentSlot ?s1]
    by (cases "length (users ?s1) > 0") (auto simp: prefetchCurrentAvatar_def)
  have k2: "users s2 = ?sorted \<and> currentUserIndex s2 = Idx (reanchor s ?sorted)"
  proof (cases "length (users ?s1) > 0")
    case True
    with s2 have "prefetchAvatar e CurrentSlot ?s1 = Resolved s2" by (simp add: prefetchCurrentAvatar_def)
    from prefetchAvatar_keeps[OF this] show ?thesis by simp
  next
    case False
    with s2 show ?thesis by auto
  qed
  obtain s3 sp where s3: "(if \<not> isFetchingNext s2 \<and> length (users s2) > 0
                             then spawnPrefetchNext s2 else (s2, [])) = (s3, sp)"
    by (cases "(if \<not> isFetchingNext s2 \<and> length (users s2) > 0
                             then spawnPrefetchNext s2 else (s2, []))")
  have k3: "users s3 = users s2 \<and> currentUserIndex s3 = currentUserIndex s2"
  proof (cases "\<not> isFetchingNext s2 \<and> length (users s2) > 0")
    case True
    with s3 have "spawnPrefetchNext s2 = (s3, sp)" by simp
    from spawnPrefetchNext_keeps[OF this] show ?thesis by simp
  next
    case False
    with s3 show ?thesis by auto
  qed
  obtain s4 sp' where s4: "updateDisplay s3 = (s4, sp')" by (cases "updateDisplay s3")
  from updateDisplay_keeps[OF s4] have k4: "users s4 = users s3 \<and> currentUserIndex s4 = currentUserIndex s3"
    by simp
  have "fetchUsersData e s = (s4, sp @ sp')"
    using assms s2 s3 s4 by (simp add: fetchUsersData_def Let_def)
  with k2 k3 k4 show ?thesis by simp
qed

subsection \<open>Ending a transition\<close>






subsection \<open>Resolution and the cache\<close>

lemma slotImage_setFetching [simp]:
  "slotImage slot (setFetching slot' b s) = slotImage slot s"
  by (cases slot; cases slot') simp_all

lemma setFetching_other [simp]:
  "isFetchingNext (setFetching CurrentSlot b s) = isFetchingNext s"
  "isFetchingCurrent (setFetching NextSlot b s) = isFetchingCurrent s"
  by simp_all

lemma prefetchStart_resolves:
  assumes "resolves slot s uid c"
  shows "(case avatarCache s (cacheKey uid c) of
            Some img \<Rightarrow>
              prefetchStart slot s =
                (setFetching slot False (setSlotImage slot img (setFetching slot True s)), None)
          | None \<Rightarrow>
              (\<exists>br u. countOrZero u = c \<and>
                 prefetchStart slot s = (setFetching slot True s, Some (Pending slot br u uid))))"
proof -
  from assms obtain u where u: "elementAt (users s) (slotIndex slot s) = Some u"
      "userId u = Some uid" "uid \<noteq> []" "countOrZero u = c" and nf: "\<not> isFetching slot s"
    by (auto simp: resolves_def split: option.splits)
  from u(1) have ne: "users s \<noteq> []" by (cases "slotIndex slot s") (auto split: if_splits)
  show ?thesis
  proof (cases "avatarCache s (cacheKey uid c)")
    case (Some img)
    with u nf ne show ?thesis by (simp add: prefetchStart_def Let_def)
  next
    case None
    with u nf ne show ?thesis
      by (auto simp: prefetchStart_def Let_def split: option.splits)
  qed
qed








lemma spawnPrefetchNext_hit:
  assumes "resolves NextSlot s uid c" and "avatarCache s (cacheKey uid c) = Some img"
  shows "spawnPrefetchNext s =
           (s\<lparr>isFetchingNext := True, nextAvatarImage := Some img, isFetchingNext := False\<rparr>, [])"
  using prefetchStart_resolves[OF assms(1)] assms(2) by (simp add: spawnPrefetchNext_def)

lemma updateDisplay_fallback_hit:
  assumes "users s \<noteq> []" and "currentAvatarImage s = None" and "nextAvatarImage s = Some img0"
    and "resolves NextSlot s uid c" and "avatarCache s (cacheKey uid c) = Some img"
  shows "nextAvatarImage (fst (updateDisplay s)) = Some img"
proof -
  let ?s1 = "snd (setImageIfChanged img0 (stateKeyOf s) s)"
  let ?s2 = "?s1\<lparr>currentAvatarImage := nextAvatarImage ?s1, nextAvatarImage := None\<rparr>"
  have r: "resolves NextSlot ?s2 uid c"
    using assms(4) by (simp add: resolves_def setImageIfChanged_keeps)
  have h: "avatarCache ?s2 (cacheKey uid c) = Some img"
    using assms(5) by (simp add: setImageIfChanged_keeps)
  have "updateDisplay s = (setTitle (titleOf s) (fst (spawnPrefetchNext ?s2)), snd (spawnPrefetchNext ?s2))"
    using assms(1-3) by (simp add: updateDisplay_def Let_def split_beta)
  then show ?thesis
    unfolding spawnPrefetchNext_hit[OF r h] by (simp add: setTitle_keeps)
qed

subsection \<open>Resolution when the avatar fetch fails\<close>

lemma prefetchStart_fetch_branch:
  assumes "\<not> isFetching slot s" and "elementAt (users s) (slotIndex slot s) = Some u"
    and "userId u = Some uid" and "uid \<noteq> []"
    and "avatarCache s (cacheKey uid (countOrZero u)) = None"
    and "fromType u \<noteq> Some (js ''bot'')"
    and "avatarWebhookUrl (settings s) = Some url" and "url \<noteq> []"
  shows "prefetchStart slot s = (setFetching slot True s, Some (Pending slot (FetchBranch url) u uid))"
proof -
  from assms(2) have ne: "users s \<noteq> []" by (cases "slotIndex slot s") (auto split: if_splits)
  with assms show ?thesis by (simp add: prefetchStart_def Let_def)
qed

lemma fetch_failure_finish:
  assumes "fetchAvatar e (url, js ''userId'', uid) = FetchThrows
           \<or> (\<exists>status. fetchAvatar e (url, js ''userId'', uid) = HttpNotOk status)"
  shows "\<exists>img. overlayCountOnImage (generateInitialsImage (toUpperCase e) (nameOrId u uid) None) (countOrZero u) = Some img
       \<and> prefetchFinish e (Pending slot (FetchBranch url) u uid) s =
           Resolved (setFetching slot False (storeAvatar slot (cacheKey uid (countOrZero u)) img
             (s\<lparr>workDone := workDone s @ [NetFetch (url, js ''userId'', uid),
                                               InitialsRender (nameOrId u uid), OverlayRender]\<rparr>)))"
proof -
  let ?req = "(url, js ''userId'', uid)"
  let ?s0 = "s\<lparr>workDone := workDone s @ [NetFetch ?req]\<rparr>"
  from assms show ?thesis
  proof
    assume t: "fetchAvatar e ?req = FetchThrows"
    from catchFinally_Rejected[of e u uid slot ?s0] t show ?thesis by (auto simp: Let_def)
  next
    assume "\<exists>status. fetchAvatar e ?req = HttpNotOk status"
    then obtain status where n: "fetchAvatar e ?req = HttpNotOk status" ..
    from initialsPath_resolves[of e u uid None slot ?s0] n show ?thesis
      by (auto simp: Let_def catchFinally_Resolved)
  qed
qed

subsection \<open>The single avatar when the avatar fetch fails\<close>

lemma avatarSetImageIfChanged_keeps:
  "avatarImage (snd (avatarSetImageIfChanged img k t)) = avatarImage t"
  "baseCache (snd (avatarSetImageIfChanged img k t)) = baseCache t"
  by (simp_all add: avatarSetImageIfChanged_def)

lemma fetchData_not_ok:
  assumes "userEmail (avatarSettings t) = Some email" and "email \<noteq> []"
    and "avatarUrlSetting (avatarSettings t) = Some avatarUrl" and "avatarUrl \<noteq> []"
    and "messagesWebhookUrl (avatarSettings t) = Some messagesUrl" and "messagesUrl \<noteq> []"
    and "baseCache t email = None"
    and "fetchUserAvatar ea (avatarUrl, js ''user'', email) = HttpNotOk status"
  shows "avatarImage (fetchData ea t) = avatarImage t \<and> baseCache (fetchData ea t) = baseCache t"
  using assms
  by (auto simp: fetchData_def Let_def fetchAvatarStage_def fetchMessagesStage_def
        avatarUpdateDisplay_def avatarSetImageIfChanged_def
      split: option.splits messages_response.splits)

lemma fetchData_throws:
  assumes "userEmail (avatarSettings t) = Some email" and "email \<noteq> []"
    and "avatarUrlSetting (avatarSettings t) = Some avatarUrl" and "avatarUrl \<noteq> []"
    and "messagesWebhookUrl (avatarSettings t) = Some messagesUrl" and "messagesUrl \<noteq> []"
    and "baseCache t email = None"
    and "fetchUserAvatar ea (avatarUrl, js ''user'', email) = FetchThrows"
  shows "avatarImage (fetchData ea t) = avatarImage t \<and> baseCache (fetchData ea t) = baseCache t
       \<and> lastDisplayedImageState (fetchData ea t) = Some (js ''error'')
       \<and> buttonImages (fetchData ea t) =
           (if lastDisplayedImageState t = Some (js ''error'') then buttonImages t
            else buttonImages t @ [generateErrorImage])"
  using assms
  by (auto simp: fetchData_def Let_def fetchAvatarStage_def avatarSetImageIfChanged_def)

lemma fetchData_not_ok_drawn:
  assumes "userEmail (avatarSettings t) = Some email" and "email \<noteq> []"
    and "avatarUrlSetting (avatarSettings t) = Some avatarUrl" and "avatarUrl \<noteq> []"
    and "messagesWebhookUrl (avatarSettings t) = Some messagesUrl" and "messagesUrl \<noteq> []"
    and "baseCache t email = None"
    and "fetchUserAvatar ea (avatarUrl, js ''user'', email) = HttpNotOk status"
  shows "(fetchMessages ea (messagesUrl, js ''user'', email) = MessagesThrows \<longrightarrow>
            buttonImages (fetchData ea t) =
              (if lastDisplayedImageState t = Some (js ''error'') then buttonImages t
               else buttonImages t @ [generateErrorImage]))
       \<and> (fetchMessages ea (messagesUrl, js ''user'', email) \<noteq> MessagesThrows
            \<and> avatarImage t = None \<longrightarrow>
            buttonImages (fetchData ea t) = buttonImages t
            \<and> lastDisplayedImageState (fetchData ea t) = lastDisplayedImageState t)
       \<and> (\<forall>base. fetchMessages ea (messagesUrl, js ''user'', email) \<noteq> MessagesThrows
            \<and> avatarImage t = Some base \<longrightarrow>
            (case overlayCountOnImage base (int (unreadCount (fetchData ea t))) of
               None \<Rightarrow>
                 buttonImages (fetchData ea t) =
                   (if lastDisplayedImageState t = Some (js ''error'') then buttonImages t
                    else buttonImages t @ [generateErrorImage])
             | Some img \<Rightarrow>
                 buttonImages (fetchData ea t) =
                   (if lastDisplayedImageState t =
                         Some (js ''avatar:'' @ email @ js ''_''
                                 @ numToString (int (unreadCount (fetchData ea t))))
                    then buttonImages t else buttonImages t @ [img])))"
proof -
  let ?req = "(messagesUrl, js ''user'', email)"
  have a: ?thesis if "fetchMessages ea ?req = MessagesThrows"
    using assms that
    by (simp add: fetchData_def Let_def fetchAvatarStage_def fetchMessagesStage_def
          avatarSetImageIfChanged_def)
  have b: ?thesis if "fetchMessages ea ?req = MessagesNotOk st" for st
    using assms that
    by (auto simp: fetchData_def Let_def fetchAvatarStage_def fetchMessagesStage_def
          avatarUpdateDisplay_def avatarSetImageIfChanged_def split: option.splits)
  have c: ?thesis if "fetchMessages ea ?req = MessagesNotArray"
    using assms that
    by (auto simp: fetchData_def Let_def fetchAvatarStage_def fetchMessagesStage_def
          avatarUpdateDisplay_def avatarSetImageIfChanged_def split: option.splits)
  have d: ?thesis if "fetchMessages ea ?req = MessagesArray n" for n
    using assms that
    by (auto simp: fetchData_def Let_def fetchAvatarStage_def fetchMessagesStage_def
          avatarUpdateDisplay_def avatarSetImageIfChanged_def split: option.splits)
  from a b c d show ?thesis by (cases "fetchMessages ea ?req") blast+
qed


subsection \<open>The example sessions\<close>

lemma afterPairPoll_observed:
  "observe (fst afterPairPoll) =
     ([user2, user1], Idx 0, Some avatarBo, None, True, False, Some (js ''avatar:u2_7_0''),
      [avatarBo], 0, 0)"
  by code_simp

lemma afterGuestPoll_observed:
  "observe afterGuestPoll =
     ([user1, guest], Idx 0, Some avatarAnn, None, False, False, Some (js ''avatar:u1_3_0''),
      [avatarAnn], 0, 0)"
  by code_simp

lemma afterGuestPoll_keyUp_observed:
  "observe (fst (showNextUser afterGuestPoll)) =
     ([user1, guest], Idx 1, Some avatarAnn, Some avatarAnn, False, False,
      Some (js ''avatar:_0_1''), [avatarAnn, avatarAnn], 0, 0)"
  by code_simp

lemma stalled_observed:
  "observe stalled =
     ([user2, user1], Idx 0, Some avatarBo, Some avatarAnn, False, True,
      Some (js ''transitioning''), [avatarBo], 0, 25)"
  by code_simp


lemma afterGuestPoll_cache:
  "avatarCache afterGuestPoll (js ''u1_3'') = Some avatarAnn"
  by code_simp



section \<open>The claims\<close>

subsection \<open>Forced and normal completion of a transition\<close>





subsection \<open>Fallback to initials when the avatar fetch fails\<close>

text \<open>
  The statement of claim C2 fails on the following input.
\<close>

theorem single_avatar_no_initials_counterexample:
  "fetchUserAvatar single404Env (js ''https://hook/avatar'', js ''user'', js ''ann@example.com'') = HttpNotOk 404
   \<and> avatarImage (fetchData single404Env (newAvatarSession singleSettings)) = None
   \<and> baseCache (fetchData single404Env (newAvatarSession singleSettings)) (js ''ann@example.com'') = None
   \<and> buttonImages (fetchData single404Env (newAvatarSession singleSettings)) = []
   \<and> fetchUserAvatar singleThrowEnv (js ''https://hook/avatar'', js ''user'', js ''ann@example.com'') = FetchThrows
   \<and> avatarImage (fetchData singleThrowEnv (newAvatarSession singleSettings)) = None
   \<and> baseCache (fetchData singleThrowEnv (newAvatarSession singleSettings)) (js ''ann@example.com'') = None
   \<and> buttonImages (fetchData singleThrowEnv (newAvatarSession singleSettings)) = [generateErrorImage]"
  by (simp add: fetchData_def Let_def fetchAvatarStage_def fetchMessagesStage_def
        avatarUpdateDisplay_def avatarSetImageIfChanged_def newAvatarSession_def singleSettings_def
        single404Env_def singleThrowEnv_def js_def)

text \<open>
  Claim C2, amended.  The claim holds for the carousel: when the avatar webhook answers
  with a status that is not OK, or the fetch throws, \<open>prefetchNextAvatar\<close> and
  \<open>prefetchCurrentAvatar\<close> synthesize the initials image of the user, composite the count on
  it, put the result in the image field and in the cache under \<open>userId_count\<close>, release
  the in-flight flag and resolve.  It does not hold for the single avatar: \<open>TeamsAvatar\<close>
  has no initials synthesis.  There a status that is not OK leaves \<open>avatarImage\<close> and the
  cache as they were, and \<open>fetchData\<close> goes on to the messages fetch.  If that throws, the
  static error image is shown.  If it does not, \<open>updateDisplay\<close> draws nothing when
  \<open>avatarImage\<close> is null, and otherwise shows the \<open>avatarImage\<close> kept from before with the
  count on it, under the state key \<open>avatar:email_count\<close>, or the static error image when
  that image does not load.  An avatar fetch that throws is caught by \<open>fetchData\<close>, which
  shows the static error image.  Every image is shown through \<open>setImageIfChanged\<close>: it is
  written unless its state key is the last displayed one.  First the claim as stated,
  refuted on a single-avatar button whose avatar webhook answers 404 or is unreachable;
  then the amended statement.
\<close>

theorem avatar_fetch_failure_fallback:
  assumes "fetchAvatar e (url, js ''userId'', uid) = FetchThrows
           \<or> (\<exists>status. fetchAvatar e (url, js ''userId'', uid) = HttpNotOk status)"
    and "\<not> isFetching slot s" and "elementAt (users s) (slotIndex slot s) = Some u"
    and "userId u = Some uid" and "uid \<noteq> []"
    and "avatarCache s (cacheKey uid (countOrZero u)) = None"
    and "fromType u \<noteq> Some (js ''bot'')"
    and "avatarWebhookUrl (settings s) = Some url" and "url \<noteq> []"
  shows "(\<exists>img s'. overlayCountOnImage (generateInitialsImage (toUpperCase e) (nameOrId u uid) None)
                      (countOrZero u) = Some img
           \<and> prefetchAvatar e slot s = Resolved s'
           \<and> slotImage slot s' = Some img
           \<and> avatarCache s' = (avatarCache s)(cacheKey uid (countOrZero u) \<mapsto> img)
           \<and> \<not> isFetching slot s'
           \<and> workDone s' = workDone s @ [NetFetch (url, js ''userId'', uid),
                                            InitialsRender (nameOrId u uid), OverlayRender])
       \<and> (userEmail (avatarSettings t) = Some email \<and> email \<noteq> []
            \<and> avatarUrlSetting (avatarSettings t) = Some avatarUrl \<and> avatarUrl \<noteq> []
            \<and> messagesWebhookUrl (avatarSettings t) = Some messagesUrl \<and> messagesUrl \<noteq> []
            \<and> baseCache t email = None
            \<and> fetchUserAvatar ea (avatarUrl, js ''user'', email) = HttpNotOk status'
          \<longrightarrow> avatarImage (fetchData ea t) = avatarImage t \<and> baseCache (fetchData ea t) = baseCache t
              \<and> (fetchMessages ea (messagesUrl, js ''user'', email) = MessagesThrows \<longrightarrow>
                    buttonImages (fetchData ea t) =
                      (if lastDisplayedImageState t = Some (js ''error'') then buttonImages t
                       else buttonImages t @ [generateErrorImage]))
              \<and> (fetchMessages ea (messagesUrl, js ''user'', email) \<noteq> MessagesThrows
                    \<and> avatarImage t = None \<longrightarrow>
                    buttonImages (fetchData ea t) = buttonImages t
                    \<and> lastDisplayedImageState (fetchData ea t) = lastDisplayedImageState t)
              \<and> (\<forall>base. fetchMessages ea (messagesUrl, js ''user'', email) \<noteq> MessagesThrows
                    \<and> avatarImage t = Some base \<longrightarrow>
                    (case overlayCountOnImage base (int (unreadCount (fetchData ea t))) of
                       None \<Rightarrow>
                         buttonImages (fetchData ea t) =
                           (if lastDisplayedImageState t = Some (js ''error'') then buttonImages t
                            else buttonImages t @ [generateErrorImage])
                     | Some img \<Rightarrow>
                         buttonImages (fetchData ea t) =
                           (if lastDisplayedImageState t =
                                 Some (js ''avatar:'' @ email @ js ''_''
                                         @ numToString (int (unreadCount (fetchData ea t))))
                            then buttonImages t else buttonImages t @ [img]))))
       \<and> (userEmail (avatarSettings t) = Some email \<and> email \<noteq> []
            \<and> avatarUrlSetting (avatarSettings t) = Some avatarUrl \<and> avatarUrl \<noteq> []
            \<and> messagesWebhookUrl (avatarSettings t) = Some messagesUrl \<and> messagesUrl \<noteq> []
            \<and> baseCache t email = None
            \<and> fetchUserAvatar eb (avatarUrl, js ''user'', email) = FetchThrows
          \<longrightarrow> avatarImage (fetchData eb t) = avatarImage t \<and> baseCache (fetchData eb t) = baseCache t
              \<and> lastDisplayedImageState (fetchData eb t) = Some (js ''error'')
              \<and> buttonImages (fetchData eb t) =
                  (if lastDisplayedImageState t = Some (js ''error'') then buttonImages t
                   else buttonImages t @ [generateErrorImage]))"
proof -
  have start: "prefetchStart slot s = (setFetching slot True s, Some (Pending slot (FetchBranch url) u uid))"
    using assms(2-9) by (rule prefetchStart_fetch_branch)
  from fetch_failure_finish[OF assms(1), of u slot "setFetching slot True s"] obtain img where
    img: "overlayCountOnImage (generateInitialsImage (toUpperCase e) (nameOrId u uid) None) (countOrZero u) = Some img"
    and fin: "prefetchFinish e (Pending slot (FetchBranch url) u uid) (setFetching slot True s) =
           Resolved (setFetching slot False (storeAvatar slot (cacheKey uid (countOrZero u)) img
             ((setFetching slot True s)\<lparr>workDone := workDone (setFetching slot True s) @ [NetFetch (url, js ''userId'', uid),
                                               InitialsRender (nameOrId u uid), OverlayRender]\<rparr>)))"
    by blast
  let ?s' = "setFetching slot False (storeAvatar slot (cacheKey uid (countOrZero u)) img
             ((setFetching slot True s)\<lparr>workDone := workDone (setFetching slot True s) @ [NetFetch (url, js ''userId'', uid),
                                               InitialsRender (nameOrId u uid), OverlayRender]\<rparr>))"
  have run: "prefetchAvatar e slot s = Resolved ?s'"
    using start fin by (simp add: prefetchAvatar_def)
  have carousel: "\<exists>img s'. overlayCountOnImage (generateInitialsImage (toUpperCase e) (nameOrId u uid) None)
                      (countOrZero u) = Some img
           \<and> prefetchAvatar e slot s = Resolved s'
           \<and> slotImage slot s' = Some img
           \<and> avatarCache s' = (avatarCache s)(cacheKey uid (countOrZero u) \<mapsto> img)
           \<and> \<not> isFetching slot s'
           \<and> workDone s' = workDone s @ [NetFetch (url, js ''userId'', uid),
                                            InitialsRender (nameOrId u uid), OverlayRender]"
    using img run by (intro exI[of _ img] exI[of _ ?s']) simp
  from carousel fetchData_not_ok[of t email avatarUrl messagesUrl ea status']
    fetchData_not_ok_drawn[of t email avatarUrl messagesUrl ea status']
    fetchData_throws[of t email avatarUrl messagesUrl eb]
  show ?thesis by blast
qed

theorem avatar_fetch_failure_fallback_witness:
  "(\<exists>status. fetchAvatar exampleEnv (js ''https://hook/avatar'', js ''userId'', js ''u2'') = HttpNotOk status)
   \<and> \<not> isFetching CurrentSlot beforeFirstResolve
   \<and> elementAt (users beforeFirstResolve) (slotIndex CurrentSlot beforeFirstResolve) = Some user2
   \<and> userId user2 = Some (js ''u2'') \<and> js ''u2'' \<noteq> []
   \<and> avatarCache beforeFirstResolve (cacheKey (js ''u2'') (countOrZero user2)) = None
   \<and> fromType user2 \<noteq> Some (js ''bot'')
   \<and> avatarWebhookUrl (settings beforeFirstResolve) = Some (js ''https://hook/avatar'')
   \<and> (\<exists>s'. prefetchAvatar exampleEnv CurrentSlot beforeFirstResolve = Resolved s'
          \<and> currentAvatarImage s' = Some avatarBo
          \<and> avatarCache s' (js ''u2_7'') = Some avatarBo)
   \<and> fetchUserAvatar single404Env (js ''https://hook/avatar'', js ''user'', js ''ann@example.com'') = HttpNotOk 404
   \<and> fetchUserAvatar singleThrowEnv (js ''https://hook/avatar'', js ''user'', js ''ann@example.com'') = FetchThrows
   \<and> baseCache (fetchData single404Env (newAvatarSession singleSettings)) = Map.empty
   \<and> lastDisplayedImageState (fetchData singleThrowEnv (newAvatarSession singleSettings)) = Some (js ''error'')
   \<and> fetchMessages single404Env (js ''https://hook/messages'', js ''user'', js ''ann@example.com'') \<noteq> MessagesThrows
   \<and> avatarImage (newAvatarSession singleSettings) = None
   \<and> buttonImages (fetchData single404Env (newAvatarSession singleSettings)) = []
   \<and> buttonImages (fetchData singleThrowEnv (newAvatarSession singleSettings)) = [generateErrorImage]
   \<and> fetchUserAvatar singleMessagesThrowEnv (js ''https://hook/avatar'', js ''user'', js ''ann@example.com'') = HttpNotOk 404
   \<and> fetchMessages singleMessagesThrowEnv (js ''https://hook/messages'', js ''user'', js ''ann@example.com'') = MessagesThrows
   \<and> buttonImages (fetchData singleMessagesThrowEnv (newAvatarSession singleSettings)) = [generateErrorImage]
   \<and> avatarImage afterSettingsChange = Some jpegAvatar
   \<and> buttonImages (fetchData single404Env afterSettingsChange) =
        [Png [DrawImage jpegAvatar 1, StrokeText (js ''2'') (js ''#000000'') 5 (1 / 2),
              FillText (js ''2'') (js ''#ffffff'') (1 / 2)]]"
proof -
  let ?url = "js ''https://hook/avatar''"
  let ?murl = "js ''https://hook/messages''"
  let ?mail = "js ''ann@example.com''"
  let ?t0 = "newAvatarSession singleSettings"
  have h1: "fetchAvatar exampleEnv (?url, js ''userId'', js ''u2'') = FetchThrows
           \<or> (\<exists>status. fetchAvatar exampleEnv (?url, js ''userId'', js ''u2'') = HttpNotOk status)"
    by (simp add: exampleEnv_def)
  have h1': "\<exists>status. fetchAvatar exampleEnv (?url, js ''userId'', js ''u2'') = HttpNotOk status"
    by (simp add: exampleEnv_def)
  have h2: "\<not> isFetching CurrentSlot beforeFirstResolve"
    by (simp add: beforeFirstResolve_def newSession_def)
  have h3: "elementAt (users beforeFirstResolve) (slotIndex CurrentSlot beforeFirstResolve) = Some user2"
    by (simp add: beforeFirstResolve_def newSession_def)
  have h4: "userId user2 = Some (js ''u2'')" by (simp add: user2_def)
  have h5: "js ''u2'' \<noteq> []" by (simp add: js_def)
  have h6: "avatarCache beforeFirstResolve (cacheKey (js ''u2'') (countOrZero user2)) = None"
    by (simp add: beforeFirstResolve_def newSession_def)
  have h7: "fromType user2 \<noteq> Some (js ''bot'')" by (simp add: user2_def)
  have h8: "avatarWebhookUrl (settings beforeFirstResolve) = Some ?url"
    by (simp add: beforeFirstResolve_def newSession_def exampleSettings_def)
  have h9: "?url \<noteq> []" by (simp add: js_def)
  have key: "cacheKey (js ''u2'') (countOrZero user2) = js ''u2_7''"
    by (simp add: cacheKey_def countOrZero_def user2_def numToString_def digits.simps js_def)
  have img: "overlayCountOnImage (generateInitialsImage (toUpperCase exampleEnv) (nameOrId user2 (js ''u2'')) None)
                      (countOrZero user2) = Some avatarBo"
    by (simp add: generateInitialsImage_ops initialsOf_tokens nameOrId_def user2_def countOrZero_def
          exampleEnv_def asciiUpper_def rollingHash32_def colors_def js_def avatarBo_def
          overlayCountOnImage_def Let_def drawImage_def strokeText_def fillText_def createCanvas_def
          toDataURL_def numToString_def digits.simps)
  have t1: "userEmail (avatarSettings ?t0) = Some ?mail"
    and t2: "avatarUrlSetting (avatarSettings ?t0) = Some ?url"
    and t3: "messagesWebhookUrl (avatarSettings ?t0) = Some ?murl"
    and t4: "baseCache ?t0 ?mail = None"
    and t5: "avatarImage ?t0 = None" and t6: "buttonImages ?t0 = []"
    and t7: "lastDisplayedImageState ?t0 = None"
    by (simp_all add: newAvatarSession_def singleSettings_def)
  have a1: "userEmail (avatarSettings afterSettingsChange) = Some ?mail"
    and a2: "avatarUrlSetting (avatarSettings afterSettingsChange) = Some ?url"
    and a3: "messagesWebhookUrl (avatarSettings afterSettingsChange) = Some ?murl"
    and a4: "baseCache afterSettingsChange ?mail = None"
    and a5: "avatarImage afterSettingsChange = Some jpegAvatar"
    and a6: "buttonImages afterSettingsChange = []"
    and a7: "lastDisplayedImageState afterSettingsChange = None"
    by (simp_all add: afterSettingsChange_def newAvatarSession_def singleSettings_def)
  have n1: "?mail \<noteq> []" and n3: "?murl \<noteq> []"
    by (simp_all add: js_def)
  have e1: "fetchUserAvatar single404Env (?url, js ''user'', ?mail) = HttpNotOk 404"
    and m1: "fetchMessages single404Env (?murl, js ''user'', ?mail) \<noteq> MessagesThrows"
    by (simp_all add: single404Env_def)
  have e2: "fetchUserAvatar singleThrowEnv (?url, js ''user'', ?mail) = FetchThrows"
    by (simp add: singleThrowEnv_def)
  have e3: "fetchUserAvatar singleMessagesThrowEnv (?url, js ''user'', ?mail) = HttpNotOk 404"
    and m3: "fetchMessages singleMessagesThrowEnv (?murl, js ''user'', ?mail) = MessagesThrows"
    by (simp_all add: singleMessagesThrowEnv_def)
  have c0: "baseCache ?t0 = Map.empty"
    by (simp add: newAvatarSession_def)
  have cnt: "unreadCount (fetchData single404Env afterSettingsChange) = 2"
    by (simp add: fetchData_def Let_def fetchAvatarStage_def fetchMessagesStage_def
          avatarUpdateDisplay_def avatarSetImageIfChanged_def afterSettingsChange_def
          newAvatarSession_def singleSettings_def single404Env_def js_def
          split: option.splits)
  have ov: "overlayCountOnImage jpegAvatar 2 =
      Some (Png [DrawImage jpegAvatar 1, StrokeText (js ''2'') (js ''#000000'') 5 (1 / 2),
                 FillText (js ''2'') (js ''#ffffff'') (1 / 2)])"
    by (simp add: overlayCountOnImage_def jpegAvatar_def Let_def drawImage_def strokeText_def
          fillText_def createCanvas_def toDataURL_def numToString_def digits.simps js_def)
  note inst = avatar_fetch_failure_fallback[where t="?t0"
      and email="?mail" and avatarUrl="?url" and messagesUrl="?murl"
      and ea=single404Env and status'=404 and eb=singleThrowEnv, OF h1 h2 h3 h4 h5 h6 h7 h8 h9]
  note inst2 = avatar_fetch_failure_fallback[where t="?t0"
      and email="?mail" and avatarUrl="?url" and messagesUrl="?murl"
      and ea=singleMessagesThrowEnv and status'=404 and eb=singleThrowEnv, OF h1 h2 h3 h4 h5 h6 h7 h8 h9]
  note inst3 = avatar_fetch_failure_fallback[where t="afterSettingsChange"
      and email="?mail" and avatarUrl="?url" and messagesUrl="?murl"
      and ea=single404Env and status'=404 and eb=singleThrowEnv, OF h1 h2 h3 h4 h5 h6 h7 h8 h9]
  from inst img key obtain s' where
    "prefetchAvatar exampleEnv CurrentSlot beforeFirstResolve = Resolved s'"
    "currentAvatarImage s' = Some avatarBo" "avatarCache s' (js ''u2_7'') = Some avatarBo"
    by auto
  then have carousel: "\<exists>s'. prefetchAvatar exampleEnv CurrentSlot beforeFirstResolve = Resolved s'
          \<and> currentAvatarImage s' = Some avatarBo
          \<and> avatarCache s' (js ''u2_7'') = Some avatarBo" by blast
  from inst t1 t2 t3 t4 n1 n3 h9 e1 have s1: "baseCache (fetchData single404Env ?t0) = Map.empty"
    using c0 by simp
  from inst t1 t2 t3 t4 n1 n3 h9 e2 have s2: "lastDisplayedImageState (fetchData singleThrowEnv ?t0) = Some (js ''error'')"
    by simp
  from inst t1 t2 t3 t4 n1 n3 h9 e1 m1 t5 t6 have s3: "buttonImages (fetchData single404Env ?t0) = []"
    by simp
  from inst t1 t2 t3 t4 n1 n3 h9 e2 t6 t7 have s4: "buttonImages (fetchData singleThrowEnv ?t0) = [generateErrorImage]"
    by simp
  from inst2 t1 t2 t3 t4 n1 n3 h9 e3 m3 t6 t7 have s5: "buttonImages (fetchData singleMessagesThrowEnv ?t0) = [generateErrorImage]"
    by simp
  from inst3 a1 a2 a3 a4 n1 n3 h9 e1 m1 a5
  have "(case overlayCountOnImage jpegAvatar (int (unreadCount (fetchData single404Env afterSettingsChange))) of
           None \<Rightarrow>
             buttonImages (fetchData single404Env afterSettingsChange) =
               (if lastDisplayedImageState afterSettingsChange = Some (js ''error'')
                then buttonImages afterSettingsChange
                else buttonImages afterSettingsChange @ [generateErrorImage])
         | Some img \<Rightarrow>
             buttonImages (fetchData single404Env afterSettingsChange) =
               (if lastDisplayedImageState afterSettingsChange =
                     Some (js ''avatar:'' @ ?mail @ js ''_''
                             @ numToString (int (unreadCount (fetchData single404Env afterSettingsChange))))
                then buttonImages afterSettingsChange
                else buttonImages afterSettingsChange @ [img]))"
    by simp
  then have s6: "buttonImages (fetchData single404Env afterSettingsChange) =
        [Png [DrawImage jpegAvatar 1, StrokeText (js ''2'') (js ''#000000'') 5 (1 / 2),
              FillText (js ''2'') (js ''#ffffff'') (1 / 2)]]"
    unfolding cnt by (simp add: ov a6 a7)
  from h1' h2 h3 h4 h5 h6 h7 h8 carousel e1 e2 s1 s2 m1 t5 s3 s4 e3 m3 s5 a5 s6
  show ?thesis by blast
qed

subsection \<open>The badge overlay at count zero\<close>

text \<open>
  The statement of claim C3 fails on the following input.
\<close>

theorem overlay_zero_reencodes_counterexample:
  "overlayCountOnImage jpegAvatar 0 = Some (Png [DrawImage jpegAvatar 1])
   \<and> overlayCountOnImage jpegAvatar 0 \<noteq> Some jpegAvatar
   \<and> mediaType jpegAvatar = js ''image/jpeg''
   \<and> mediaType (Png [DrawImage jpegAvatar 1]) = js ''image/png''"
  by (simp add: overlayCountOnImage_def jpegAvatar_def Let_def drawImage_def createCanvas_def toDataURL_def)

text \<open>
  Claim C3, amended.  The claim says \<open>overlayCountOnImage\<close> returns its input at count 0.
  It draws no badge then, but it still draws the base image on a fresh canvas and
  returns that canvas encoded as PNG, which is not the input data URL in general: a JPEG
  from the webhook comes back as a PNG.  Amended: at count 0 the result is the PNG of a
  canvas on which the loaded base image alone was drawn, and the promise rejects when the
  base image does not load.
\<close>

theorem overlay_zero_draws_no_badge:
  "overlayCountOnImage img 0 = map_option (\<lambda>loaded. Png [DrawImage loaded 1]) (loadImage img)"
  by (simp add: overlayCountOnImage_def Let_def drawImage_def createCanvas_def toDataURL_def
           split: option.splits)

subsection \<open>The crossfade frames\<close>

text \<open>
  Claim C4.  When the current and the next image are both present and load,
  \<open>generateTransitionFrames\<close> produces exactly 25 frames, and frame \<open>i\<close> is a black
  background with the current image drawn at opacity \<open>1 - i/24\<close> and the next image at
  opacity \<open>i/24\<close>; frame 0 is all current and frame 24 all next.
\<close>

theorem transition_frames_crossfade:
  assumes "currentAvatarImage s = Some cur" and "nextAvatarImage s = Some nxt"
    and "loadImage cur \<noteq> None" and "loadImage nxt \<noteq> None"
  shows "\<exists>s'. generateTransitionFrames s = Resolved s'
           \<and> length (transitionFrames s') = 25
           \<and> (\<forall>i<25. transitionFrames s' ! i =
                  Png [FillRect (js ''#000000'') 1, DrawImage cur (1 - of_nat i / 24),
                       DrawImage nxt (of_nat i / 24)])
           \<and> transitionFrames s' ! 0 =
                Png [FillRect (js ''#000000'') 1, DrawImage cur 1, DrawImage nxt 0]
           \<and> transitionFrames s' ! 24 =
                Png [FillRect (js ''#000000'') 1, DrawImage cur 0, DrawImage nxt 1]"
proof -
  have lc: "loadImage cur = Some cur" using assms(3) by (cases cur) (auto split: if_splits)
  have ln: "loadImage nxt = Some nxt" using assms(4) by (cases nxt) (auto split: if_splits)
  let ?fr = "map (\<lambda>i. Png [FillRect (js ''#000000'') 1, DrawImage cur (1 - of_nat i / 24),
                             DrawImage nxt (of_nat i / 24)]) [0..<25]"
  have loop: "frameLoop cur nxt 0 createCanvas [] = ?fr"
    using frameLoop_frames[of createCanvas cur nxt 0 "[]"] by (simp add: createCanvas_def)
  have gen: "generateTransitionFrames s = Resolved (s\<lparr>transitionFrames := ?fr\<rparr>)"
    using assms(1,2) lc ln loop by (simp add: generateTransitionFrames_def Let_def)
  have nth: "\<forall>i<25. ?fr ! i = Png [FillRect (js ''#000000'') 1, DrawImage cur (1 - of_nat i / 24),
                       DrawImage nxt (of_nat i / 24)]"
    by (simp del: upt_Suc)
  have n0: "?fr ! 0 = Png [FillRect (js ''#000000'') 1, DrawImage cur 1, DrawImage nxt 0]"
    using nth by simp
  have n24: "?fr ! 24 = Png [FillRect (js ''#000000'') 1, DrawImage cur 0, DrawImage nxt 1]"
    using nth by simp
  show ?thesis
    by (rule exI[of _ "s\<lparr>transitionFrames := ?fr\<rparr>"]) (use gen nth n0 n24 in \<open>simp del: upt_Suc\<close>)
qed

theorem transition_frames_crossfade_witness:
  "currentAvatarImage stalled = Some avatarBo \<and> nextAvatarImage stalled = Some avatarAnn
   \<and> loadImage avatarBo \<noteq> None \<and> loadImage avatarAnn \<noteq> None
   \<and> (\<exists>s'. generateTransitionFrames stalled = Resolved s'
         \<and> length (transitionFrames s') = 25
         \<and> transitionFrames s' ! 0 =
              Png [FillRect (js ''#000000'') 1, DrawImage avatarBo 1, DrawImage avatarAnn 0]
         \<and> transitionFrames s' ! 12 =
              Png [FillRect (js ''#000000'') 1, DrawImage avatarBo (1 / 2), DrawImage avatarAnn (1 / 2)]
         \<and> transitionFrames s' ! 24 =
              Png [FillRect (js ''#000000'') 1, DrawImage avatarBo 0, DrawImage avatarAnn 1])"
proof -
  have h1: "currentAvatarImage stalled = Some avatarBo"
    and h2: "nextAvatarImage stalled = Some avatarAnn"
    using stalled_observed by (simp_all add: observe_def)
  have h3: "loadImage avatarBo \<noteq> None" by (simp add: avatarBo_def)
  have h4: "loadImage avatarAnn \<noteq> None" by (simp add: avatarAnn_def)
  from transition_frames_crossfade[OF h1 h2 h3 h4] obtain s' where
    s': "generateTransitionFrames stalled = Resolved s'" "length (transitionFrames s') = 25"
        "\<forall>i<25. transitionFrames s' ! i =
                  Png [FillRect (js ''#000000'') 1, DrawImage avatarBo (1 - of_nat i / 24),
                       DrawImage avatarAnn (of_nat i / 24)]"
        "transitionFrames s' ! 0 =
              Png [FillRect (js ''#000000'') 1, DrawImage avatarBo 1, DrawImage avatarAnn 0]"
        "transitionFrames s' ! 24 =
              Png [FillRect (js ''#000000'') 1, DrawImage avatarBo 0, DrawImage avatarAnn 1]"
    by blast
  from s'(3) have "transitionFrames s' ! 12 =
              Png [FillRect (js ''#000000'') 1, DrawImage avatarBo (1 / 2), DrawImage avatarAnn (1 / 2)]"
    by simp
  with s'(1,2,4,5) h1 h2 h3 h4 show ?thesis by blast
qed

subsection \<open>Roster order after a poll\<close>

text \<open>
  Claim C5.  For every roster array the rotating webhook returns, the list the poll handler
  installs is ordered by non-increasing count, a missing count counting as 0, and the
  entries of any one count keep the relative order the webhook gave them.
\<close>

theorem poll_sorts_by_count_stable:
  assumes "rotatingWebhookUrl (settings s) = Some rotatingUrl" and "rotatingUrl \<noteq> []"
    and "fetchRoster e rotatingUrl = RosterArray usersData"
  shows "sorted_wrt (\<lambda>a b. countOrZero b \<le> countOrZero a) (users (fst (fetchUsersData e s)))
       \<and> (\<forall>c. filter (\<lambda>u. countOrZero u = c) (users (fst (fetchUsersData e s)))
               = filter (\<lambda>u. countOrZero u = c) usersData)"
  using fetchUsersData_roster[OF assms]
  by (simp add: sorted_arraySort arraySort_filter_key)

theorem poll_sorts_by_count_stable_witness:
  "rotatingWebhookUrl (settings (newSession exampleSettings)) = Some (js ''https://hook/roster'')
   \<and> js ''https://hook/roster'' \<noteq> []
   \<and> fetchRoster exampleEnv (js ''https://hook/roster'') = RosterArray exampleRoster
   \<and> map countOrZero exampleRoster = [3, 7, 0, 7]
   \<and> sorted_wrt (\<lambda>a b. countOrZero b \<le> countOrZero a)
        (users (fst (fetchUsersData exampleEnv (newSession exampleSettings))))
   \<and> filter (\<lambda>u. countOrZero u = 7) (users (fst (fetchUsersData exampleEnv (newSession exampleSettings))))
       = [user2, bot1]"
proof -
  have h1: "rotatingWebhookUrl (settings (newSession exampleSettings)) = Some (js ''https://hook/roster'')"
    by (simp add: newSession_def exampleSettings_def)
  have h2: "js ''https://hook/roster'' \<noteq> []"
    by (simp add: js_def)
  have h3: "fetchRoster exampleEnv (js ''https://hook/roster'') = RosterArray exampleRoster"
    by (simp add: exampleEnv_def)
  have c: "map countOrZero exampleRoster = [3, 7, 0, 7]"
    by (simp add: exampleRoster_def user1_def user2_def user3_def bot1_def countOrZero_def)
  have f: "filter (\<lambda>u. countOrZero u = 7) exampleRoster = [user2, bot1]"
    by (simp add: exampleRoster_def user1_def user2_def user3_def bot1_def countOrZero_def)
  from poll_sorts_by_count_stable[OF h1 h2 h3] h1 h2 h3 c f show ?thesis by simp
qed

subsection \<open>Re-anchoring the carousel after a poll\<close>

text \<open>
  Claim C6.  After a poll that fetched a roster array: if the user who was current before
  the poll has a user id that occurs in the new, re-sorted list, the current index is the
  first position of that user id in the new list; if the id does not occur, or there was
  no current user, the current index is 0.
\<close>

theorem poll_reanchors_current_user:
  assumes "rotatingWebhookUrl (settings s) = Some rotatingUrl" and "rotatingUrl \<noteq> []"
    and "fetchRoster e rotatingUrl = RosterArray usersData"
  shows "(case elementAt (users s) (currentUserIndex s) of
            None \<Rightarrow> currentUserIndex (fst (fetchUsersData e s)) = Idx 0
          | Some previous \<Rightarrow>
              if \<exists>u \<in> set (users (fst (fetchUsersData e s))). userId u = userId previous
              then \<exists>i. currentUserIndex (fst (fetchUsersData e s)) = Idx i
                     \<and> i < length (users (fst (fetchUsersData e s)))
                     \<and> userId (users (fst (fetchUsersData e s)) ! i) = userId previous
                     \<and> (\<forall>j<i. userId (users (fst (fetchUsersData e s)) ! j) \<noteq> userId previous)
              else currentUserIndex (fst (fetchUsersData e s)) = Idx 0)"
proof -
  let ?us = "arraySort compareCount usersData"
  note r = fetchUsersData_roster[OF assms]
  show ?thesis
  proof (cases "elementAt (users s) (currentUserIndex s)")
    case None
    with r show ?thesis by (simp add: reanchor_def)
  next
    case (Some previous)
    show ?thesis
    proof (cases "findIndex (\<lambda>user. userId user = userId previous) ?us")
      case None
      then have "\<not> (\<exists>u \<in> set ?us. userId u = userId previous)"
        by (simp add: findIndex_None)
      with r Some None show ?thesis by (simp add: reanchor_def)
    next
      case (Some i)
      note found = findIndex_Some[OF Some]
      then have "\<exists>u \<in> set ?us. userId u = userId previous"
        using nth_mem by blast
      with r \<open>elementAt (users s) (currentUserIndex s) = Some previous\<close> Some found
      show ?thesis by (simp add: reanchor_def)
    qed
  qed
qed

theorem poll_reanchors_current_user_witness:
  "rotatingWebhookUrl (settings ((newSession exampleSettings)\<lparr>users := [user3, user1], currentUserIndex := Idx 1\<rparr>))
     = Some (js ''https://hook/roster'')
   \<and> js ''https://hook/roster'' \<noteq> []
   \<and> fetchRoster exampleEnv (js ''https://hook/roster'') = RosterArray exampleRoster
   \<and> elementAt [user3, user1] (Idx 1) = Some user1
   \<and> users (fst (fetchUsersData exampleEnv
         ((newSession exampleSettings)\<lparr>users := [user3, user1], currentUserIndex := Idx 1\<rparr>)))
       = [user2, bot1, user1, user3]
   \<and> currentUserIndex (fst (fetchUsersData exampleEnv
         ((newSession exampleSettings)\<lparr>users := [user3, user1], currentUserIndex := Idx 1\<rparr>))) = Idx 2"
proof -
  let ?s = "(newSession exampleSettings)\<lparr>users := [user3, user1], currentUserIndex := Idx 1\<rparr>"
  have h1: "rotatingWebhookUrl (settings ?s) = Some (js ''https://hook/roster'')"
    by (simp add: newSession_def exampleSettings_def)
  have h2: "js ''https://hook/roster'' \<noteq> []"
    by (simp add: js_def)
  have h3: "fetchRoster exampleEnv (js ''https://hook/roster'') = RosterArray exampleRoster"
    by (simp add: exampleEnv_def)
  have us: "users (fst (fetchUsersData exampleEnv ?s)) = [user2, bot1, user1, user3]"
    using fetchUsersData_roster[OF h1 h2 h3]
    by (simp add: exampleRoster_def compareCount_def countOrZero_def user1_def user2_def user3_def bot1_def)
  have el: "elementAt (users ?s) (currentUserIndex ?s) = Some user1"
    by (simp add: newSession_def)
  have el': "elementAt [user3, user1] (Idx 1) = Some user1"
    by simp
  have ids: "userId user1 \<noteq> userId user2" "userId user1 \<noteq> userId bot1" "userId user1 \<noteq> userId user3"
    by (simp_all add: user1_def user2_def user3_def bot1_def js_def)
  from poll_reanchors_current_user[OF h1 h2 h3] obtain i where
    i: "currentUserIndex (fst (fetchUsersData exampleEnv ?s)) = Idx i" "i < 4"
       "userId ([user2, bot1, user1, user3] ! i) = userId user1"
    unfolding el us by (auto split: if_splits)
  from i(2) have "i = 0 \<or> i = 1 \<or> i = 2 \<or> i = 3" by arith
  with i(3) ids have "i = 2" by auto
  with i(1) h1 h2 h3 us el' show ?thesis by simp
qed

subsection \<open>Initials rendering\<close>

text \<open>
  Claim C7.  The initials image is a function of the display name, the override and the
  runtime's upper-casing alone.  Its background is \<open>colors[abs(h) mod 8]\<close> for the signed
  32-bit rolling hash \<open>h\<close> of the whole display name.  Its text is the override when one
  is given, and otherwise the upper-cased first code units of the first two
  space-separated non-empty tokens.  For a display name Workflows the call site of the
  bot branch passes the override WF.
\<close>

theorem initials_rendering:
  "generateInitialsImage upper dname ov =
     Png [FillRect (colors ! nat (\<bar>sint (rollingHash32 dname)\<bar> mod 8)) 1,
          StrokeText (initialsOf upper dname ov) (js ''#000000'') 2 1,
          FillText (initialsOf upper dname ov) (js ''#ffffff'') 1]
   \<and> initialsOf upper dname None = concat (map (\<lambda>t. upper (take 1 t)) (take 2 (tokenize [] dname)))
   \<and> (ini \<noteq> [] \<longrightarrow> initialsOf upper dname (Some ini) = ini)
   \<and> initialsOf upper dname (Some []) = initialsOf upper dname None
   \<and> (displayName u = Some (js ''Workflows'') \<longrightarrow>
        initialsOf upper (nameOrId u uid) (workflowsOverride u) = js ''WF'')"
  using generateInitialsImage_ops[of upper dname ov]
  by (simp add: initialsOf_tokens workflowsOverride_def js_def)

theorem initials_rendering_witness:
  "js ''WF'' \<noteq> [] \<and> displayName bot1 = Some (js ''Workflows'')
   \<and> generateInitialsImage asciiUpper (js ''Ann Lee'') None =
        Png [FillRect (js ''#AFEEEE'') 1, StrokeText (js ''AL'') (js ''#000000'') 2 1,
             FillText (js ''AL'') (js ''#ffffff'') 1]
   \<and> initialsOf asciiUpper (js ''Ann Lee'') (Some (js ''WF'')) = js ''WF''
   \<and> initialsOf asciiUpper (nameOrId bot1 (js ''b1'')) (workflowsOverride bot1) = js ''WF''"
proof -
  have h1: "js ''WF'' \<noteq> []" by (simp add: js_def)
  have h2: "displayName bot1 = Some (js ''Workflows'')" by (simp add: bot1_def)
  have hash: "colors ! nat (\<bar>sint (rollingHash32 (js ''Ann Lee''))\<bar> mod 8) = js ''#AFEEEE''"
    by (simp add: rollingHash32_def js_def colors_def)
  have ini: "concat (map (\<lambda>t. asciiUpper (take 1 t)) (take 2 (tokenize [] (js ''Ann Lee'')))) = js ''AL''"
    by (simp add: js_def asciiUpper_def)
  from initials_rendering[of asciiUpper "js ''Ann Lee''" None "js ''WF''" bot1 "js ''b1''"] h1 h2 hash ini
  show ?thesis by simp
qed

subsection \<open>The avatar cache\<close>



subsection \<open>Deduplicated display updates\<close>

text \<open>
  Claim C9.  Of two consecutive \<open>setImageIfChanged\<close> calls with one state key the second
  never writes; when the first is a change of key, the two together write exactly one
  image, that of the first.  A tick of the transition interval that still has a frame to
  play writes that frame whatever the last displayed state key is.
\<close>

theorem display_dedup:
  "fst (setImageIfChanged img2 k (snd (setImageIfChanged img1 k s))) = False
   \<and> shownImages (snd (setImageIfChanged img2 k (snd (setImageIfChanged img1 k s))))
       = shownImages (snd (setImageIfChanged img1 k s))
   \<and> (lastDisplayedState s \<noteq> Some k \<longrightarrow>
        shownImages (snd (setImageIfChanged img2 k (snd (setImageIfChanged img1 k s))))
          = shownImages s @ [img1])
   \<and> (currentFrameIndex s < length (transitionFrames s) \<longrightarrow>
        shownImages (fst (transitionTick s)) = shownImages s @ [transitionFrames s ! currentFrameIndex s]
        \<and> currentFrameIndex (fst (transitionTick s)) = currentFrameIndex s + 1
        \<and> lastDisplayedState (fst (transitionTick s)) = lastDisplayedState s)"
  by (simp add: setImageIfChanged_def setImage_def transitionTick_def Let_def)

theorem display_dedup_witness:
  "lastDisplayedState stalled \<noteq> Some (js ''noUsers'')
   \<and> currentFrameIndex stalled < length (transitionFrames stalled)
   \<and> shownImages (snd (setImageIfChanged generateErrorImage (js ''noUsers'')
         (snd (setImageIfChanged generateNoUsersImage (js ''noUsers'') stalled))))
       = [avatarBo, generateNoUsersImage]
   \<and> shownImages (fst (transitionTick stalled)) = [avatarBo, transitionFrames stalled ! 0]"
proof -
  have f: "lastDisplayedState stalled = Some (js ''transitioning'')" "currentFrameIndex stalled = 0"
      "length (transitionFrames stalled) = 25" "shownImages stalled = [avatarBo]"
    using stalled_observed by (simp_all add: observe_def)
  have h1: "lastDisplayedState stalled \<noteq> Some (js ''noUsers'')"
    unfolding f by (simp add: js_def)
  have h2: "currentFrameIndex stalled < length (transitionFrames stalled)"
    unfolding f by simp
  note d = display_dedup[of generateErrorImage "js ''noUsers''" generateNoUsersImage stalled]
  have twice: "shownImages (snd (setImageIfChanged generateErrorImage (js ''noUsers'')
         (snd (setImageIfChanged generateNoUsersImage (js ''noUsers'') stalled))))
       = shownImages stalled @ [generateNoUsersImage]"
    using d h1 by blast
  have tick: "shownImages (fst (transitionTick stalled))
       = shownImages stalled @ [transitionFrames stalled ! currentFrameIndex stalled]"
    using d h2 by blast
  from twice tick h1 h2 show ?thesis by (simp add: f(2,4))
qed

subsection \<open>The instant switch\<close>

text \<open>
  The statement of claim C10 fails on the following input.
\<close>

theorem showNextUser_cache_hit_counterexample:
  "users afterGuestPoll \<noteq> []
   \<and> nextAvatarImage afterGuestPoll = None
   \<and> shownImages afterGuestPoll = [avatarAnn]
   \<and> currentUserIndex (fst (showNextUser afterGuestPoll)) = Idx 1
   \<and> shownImages (fst (showNextUser afterGuestPoll)) = [avatarAnn, avatarAnn]
   \<and> shownImages (fst (showNextUser afterGuestPoll)) \<noteq> shownImages afterGuestPoll"
  using afterGuestPoll_observed afterGuestPoll_keyUp_observed by (simp add: observe_def)

text \<open>
  Claim C10, amended.  \<open>showNextUser\<close> on a non-empty roster advances the index by one
  modulo the list length and moves \<open>nextAvatarImage\<close> into \<open>currentAvatarImage\<close>; when that
  image is not null, the display update writes it unless the state key of the new position
  is already the last displayed one.  The claim goes on: when both images are null after
  the move, the display update writes no image.  Between the two, however,
  \<open>prefetchNextAvatar\<close> is called.  When no pre-fetch is in flight and the user after the
  new one has a non-empty user id whose \<open>userId_count\<close> is in the cache, that call fills
  \<open>nextAvatarImage\<close> with the cached image before \<open>updateDisplay\<close> runs, which then writes
  that image under the same condition on the state key, makes it \<open>currentAvatarImage\<close>, and
  has \<open>nextAvatarImage\<close> filled from the cache again.  No image is written when the previous
  \<open>nextAvatarImage\<close> was null and the synchronous part of \<open>prefetchNextAvatar\<close> leaves it
  null, as it does whenever a pre-fetch is still in flight.  First the claim as stated,
  refuted after the first poll of a roster holding an entry whose user id is the empty
  string; then the amended statement.
\<close>

theorem showNextUser_instant_switch:
  assumes "users s \<noteq> []"
  shows "currentUserIndex (fst (showNextUser s)) = advanceIndex (currentUserIndex s) (length (users s))
       \<and> (\<forall>img. nextAvatarImage s = Some img \<longrightarrow>
             currentAvatarImage (fst (showNextUser s)) = Some img
             \<and> shownImages (fst (showNextUser s)) =
                 (if lastDisplayedState s =
                       Some (stateKeyOf (s\<lparr>currentUserIndex :=
                               advanceIndex (currentUserIndex s) (length (users s))\<rparr>))
                  then shownImages s else shownImages s @ [img]))
       \<and> (nextAvatarImage s = None
            \<and> nextAvatarImage (fst (spawnPrefetchNext
                 (s\<lparr>currentUserIndex := advanceIndex (currentUserIndex s) (length (users s)),
                    currentAvatarImage := None, nextAvatarImage := None\<rparr>))) = None
          \<longrightarrow> shownImages (fst (showNextUser s)) = shownImages s
              \<and> lastDisplayedState (fst (showNextUser s)) = lastDisplayedState s
              \<and> currentAvatarImage (fst (showNextUser s)) = None
              \<and> nextAvatarImage (fst (showNextUser s)) = None)
       \<and> (nextAvatarImage s = None \<and> isFetchingNext s
          \<longrightarrow> shownImages (fst (showNextUser s)) = shownImages s
              \<and> lastDisplayedState (fst (showNextUser s)) = lastDisplayedState s
              \<and> currentAvatarImage (fst (showNextUser s)) = None
              \<and> nextAvatarImage (fst (showNextUser s)) = None)
       \<and> (\<forall>u uid img.
             nextAvatarImage s = None \<and> \<not> isFetchingNext s
             \<and> elementAt (users s)
                  (advanceIndex (advanceIndex (currentUserIndex s) (length (users s)))
                     (length (users s))) = Some u
             \<and> userId u = Some uid \<and> uid \<noteq> []
             \<and> avatarCache s (cacheKey uid (countOrZero u)) = Some img
          \<longrightarrow> currentAvatarImage (fst (showNextUser s)) = Some img
              \<and> nextAvatarImage (fst (showNextUser s)) = Some img
              \<and> shownImages (fst (showNextUser s)) =
                  (if lastDisplayedState s =
                        Some (stateKeyOf (s\<lparr>currentUserIndex :=
                                advanceIndex (currentUserIndex s) (length (users s))\<rparr>))
                   then shownImages s else shownImages s @ [img]))"
proof -
  let ?adv = "advanceIndex (currentUserIndex s) (length (users s))"
  let ?s2 = "s\<lparr>currentUserIndex := ?adv,
               currentAvatarImage := nextAvatarImage s, nextAvatarImage := None\<rparr>"
  obtain s3 sp where s3: "spawnPrefetchNext ?s2 = (s3, sp)" by (cases "spawnPrefetchNext ?s2")
  obtain s4 sp' where s4: "updateDisplay s3 = (s4, sp')" by (cases "updateDisplay s3")
  have run: "showNextUser s = (s4, sp @ sp')"
    using assms s3 s4 by (simp add: showNextUser_def Let_def)
  note k3 = spawnPrefetchNext_keeps[OF s3] spawnPrefetchNext_current[OF s3]
  note k4 = updateDisplay_keeps[OF s4]
  have idx: "currentUserIndex s4 = ?adv"
    using k3 k4 by simp
  have u3: "users s3 \<noteq> []" using k3 assms by simp
  have key3: "stateKeyOf s3 = stateKeyOf (s\<lparr>currentUserIndex := ?adv\<rparr>)"
    by (rule stateKeyOf_cong) (use k3 in simp_all)
  have s4': "s4 = fst (updateDisplay s3)" using s4 by simp
  have promoted: "currentAvatarImage s4 = Some img
        \<and> shownImages s4 =
            (if lastDisplayedState s = Some (stateKeyOf (s\<lparr>currentUserIndex := ?adv\<rparr>))
             then shownImages s else shownImages s @ [img])"
    if "nextAvatarImage s = Some img" for img
  proof -
    from that k3 have c3: "currentAvatarImage s3 = Some img" by simp
    show ?thesis
      unfolding s4' updateDisplay_shown updateDisplay_image key3
      using c3 u3 k3 by simp
  qed
  have blank: "shownImages s4 = shownImages s \<and> lastDisplayedState s4 = lastDisplayedState s
               \<and> currentAvatarImage s4 = None \<and> nextAvatarImage s4 = None"
    if "nextAvatarImage s = None" and "nextAvatarImage s3 = None"
  proof -
    from that(1) k3 have "currentAvatarImage s3 = None" by simp
    from updateDisplay_blank[OF u3 this that(2)] s4 have "s4 = setTitle (titleOf s3) s3" by simp
    with k3 that \<open>currentAvatarImage s3 = None\<close> show ?thesis by (simp add: setTitle_keeps)
  qed
  have general: "shownImages s4 = shownImages s \<and> lastDisplayedState s4 = lastDisplayedState s
               \<and> currentAvatarImage s4 = None \<and> nextAvatarImage s4 = None"
    if "nextAvatarImage s = None"
      and "nextAvatarImage (fst (spawnPrefetchNext
                 (s\<lparr>currentUserIndex := ?adv,
                    currentAvatarImage := None, nextAvatarImage := None\<rparr>))) = None"
  proof -
    from that s3 have "nextAvatarImage s3 = None" by simp
    with blank that(1) show ?thesis by simp
  qed
  have inflight: "shownImages s4 = shownImages s \<and> lastDisplayedState s4 = lastDisplayedState s
               \<and> currentAvatarImage s4 = None \<and> nextAvatarImage s4 = None"
    if "nextAvatarImage s = None" and "isFetchingNext s"
  proof -
    from that(2) have "spawnPrefetchNext ?s2 = (?s2, [])"
      by (simp add: spawnPrefetchNext_in_flight)
    with s3 have "s3 = ?s2" by simp
    then have "nextAvatarImage s3 = None" by simp
    with blank that(1) show ?thesis by simp
  qed
  have hit: "currentAvatarImage s4 = Some img \<and> nextAvatarImage s4 = Some img
        \<and> shownImages s4 =
            (if lastDisplayedState s = Some (stateKeyOf (s\<lparr>currentUserIndex := ?adv\<rparr>))
             then shownImages s else shownImages s @ [img])"
    if n: "nextAvatarImage s = None" and nf: "\<not> isFetchingNext s"
      and el: "elementAt (users s) (advanceIndex ?adv (length (users s))) = Some u"
      and uid: "userId u = Some uid" "uid \<noteq> []"
      and c: "avatarCache s (cacheKey uid (countOrZero u)) = Some img" for u uid img
  proof -
    have r2: "resolves NextSlot ?s2 uid (countOrZero u)"
      using nf el uid by (simp add: resolves_def)
    have h2: "avatarCache ?s2 (cacheKey uid (countOrZero u)) = Some img"
      using c by simp
    from spawnPrefetchNext_hit[OF r2 h2] s3
    have s3eq: "s3 = ?s2\<lparr>isFetchingNext := True, nextAvatarImage := Some img, isFetchingNext := False\<rparr>"
      by simp
    have c3: "currentAvatarImage s3 = None" and n3: "nextAvatarImage s3 = Some img"
      and l3: "lastDisplayedState s3 = lastDisplayedState s" and sh3: "shownImages s3 = shownImages s"
      using n by (simp_all add: s3eq)
    have r3: "resolves NextSlot s3 uid (countOrZero u)"
      using nf el uid by (simp add: resolves_def s3eq)
    have h3: "avatarCache s3 (cacheKey uid (countOrZero u)) = Some img"
      using c by (simp add: s3eq)
    from updateDisplay_fallback_hit[OF u3 c3 n3 r3 h3] have nx: "nextAvatarImage s4 = Some img"
      by (simp add: s4')
    have "currentAvatarImage s4 = Some img
        \<and> shownImages s4 =
            (if lastDisplayedState s = Some (stateKeyOf (s\<lparr>currentUserIndex := ?adv\<rparr>))
             then shownImages s else shownImages s @ [img])"
      unfolding s4' updateDisplay_shown updateDisplay_image key3
      using c3 n3 u3 l3 sh3 by simp
    with nx show ?thesis by simp
  qed
  from run idx promoted general inflight hit show ?thesis by simp
qed


theorem showNextUser_instant_switch_witness:
  "users (fst afterPairPoll) \<noteq> []
   \<and> nextAvatarImage (fst afterPairPoll) = None \<and> isFetchingNext (fst afterPairPoll)
   \<and> currentUserIndex (fst (showNextUser (fst afterPairPoll))) = Idx 1
   \<and> shownImages (fst (showNextUser (fst afterPairPoll))) = [avatarBo]
   \<and> currentAvatarImage (fst (showNextUser (fst afterPairPoll))) = None
   \<and> users afterGuestPoll \<noteq> []
   \<and> nextAvatarImage afterGuestPoll = None \<and> \<not> isFetchingNext afterGuestPoll
   \<and> elementAt (users afterGuestPoll)
        (advanceIndex (advanceIndex (currentUserIndex afterGuestPoll) (length (users afterGuestPoll)))
           (length (users afterGuestPoll))) = Some user1
   \<and> userId user1 = Some (js ''u1'') \<and> js ''u1'' \<noteq> []
   \<and> avatarCache afterGuestPoll (cacheKey (js ''u1'') (countOrZero user1)) = Some avatarAnn
   \<and> currentUserIndex (fst (showNextUser afterGuestPoll)) = Idx 1
   \<and> currentAvatarImage (fst (showNextUser afterGuestPoll)) = Some avatarAnn
   \<and> nextAvatarImage (fst (showNextUser afterGuestPoll)) = Some avatarAnn
   \<and> shownImages (fst (showNextUser afterGuestPoll)) = [avatarAnn, avatarAnn]"
proof -
  have f: "users (fst afterPairPoll) = [user2, user1]" "currentUserIndex (fst afterPairPoll) = Idx 0"
      "nextAvatarImage (fst afterPairPoll) = None" "isFetchingNext (fst afterPairPoll)"
      "shownImages (fst afterPairPoll) = [avatarBo]"
    using afterPairPoll_observed by (simp_all add: observe_def)
  have h: "users (fst afterPairPoll) \<noteq> []" unfolding f by simp
  have first: "currentUserIndex (fst (showNextUser (fst afterPairPoll))) = Idx 1
   \<and> shownImages (fst (showNextUser (fst afterPairPoll))) = [avatarBo]
   \<and> currentAvatarImage (fst (showNextUser (fst afterPairPoll))) = None"
    using showNextUser_instant_switch[OF h] f by simp
  have g: "users afterGuestPoll = [user1, guest]" "currentUserIndex afterGuestPoll = Idx 0"
      "nextAvatarImage afterGuestPoll = None" "\<not> isFetchingNext afterGuestPoll"
      "lastDisplayedState afterGuestPoll = Some (js ''avatar:u1_3_0'')"
      "shownImages afterGuestPoll = [avatarAnn]"
    using afterGuestPoll_observed by (simp_all add: observe_def)
  have h': "users afterGuestPoll \<noteq> []" unfolding g by simp
  have el: "elementAt (users afterGuestPoll)
        (advanceIndex (advanceIndex (currentUserIndex afterGuestPoll) (length (users afterGuestPoll)))
           (length (users afterGuestPoll))) = Some user1"
    unfolding g by simp
  have uid: "userId user1 = Some (js ''u1'')" and ne: "js ''u1'' \<noteq> []"
    by (simp_all add: user1_def js_def)
  have ck: "cacheKey (js ''u1'') (countOrZero user1) = js ''u1_3''"
    by (simp add: cacheKey_def countOrZero_def user1_def numToString_def digits.simps js_def)
  have hit: "avatarCache afterGuestPoll (cacheKey (js ''u1'') (countOrZero user1)) = Some avatarAnn"
    unfolding ck by (rule afterGuestPoll_cache)
  have key: "stateKeyOf (afterGuestPoll\<lparr>currentUserIndex :=
               advanceIndex (currentUserIndex afterGuestPoll) (length (users afterGuestPoll))\<rparr>)
             = js ''avatar:_0_1''"
    by (simp add: stateKeyOf_def g Let_def guest_def countOrZero_def numToString_def
          digits.simps js_def)
  have differ: "js ''avatar:u1_3_0'' \<noteq> js ''avatar:_0_1''" by (simp add: js_def)
  have second: "currentUserIndex (fst (showNextUser afterGuestPoll)) = Idx 1
   \<and> currentAvatarImage (fst (showNextUser afterGuestPoll)) = Some avatarAnn
   \<and> nextAvatarImage (fst (showNextUser afterGuestPoll)) = Some avatarAnn
   \<and> shownImages (fst (showNextUser afterGuestPoll)) = [avatarAnn, avatarAnn]"
    using showNextUser_instant_switch[OF h'] g(3,4) el uid ne hit
    unfolding key by (simp add: g differ)
  from h f(3,4) first h' g(3,4) el uid ne hit second show ?thesis by simp
qed


end
